theory Spec2Isabelle
  imports Main "HOL-Library.Word"
begin

text \<open>
  A model of \<open>server.js\<close> of zulmapp-backend, the version that works with cycle dates:
  the clock in Buenos Aires time, the cycle date, the access window, the numbering of
  the dishes of a cycle, and the handlers that create or update, cancel and count
  orders, over a model of the table \<open>pedidos\<close> and of the failures of its store.
\<close>

section \<open>JavaScript values used by server.js\<close>

subsection \<open>Strings\<close>

text \<open>
  A JavaScript string is a sequence of UTF-16 code units. \<open>js\<close> turns an ASCII literal
  into such a sequence, so that the e-mail addresses and messages of the server can be
  written down.
\<close>

type_synonym jsstring = "16 word list"

definition js :: "string \<Rightarrow> jsstring" where
  "js s = map (\<lambda>c. of_nat (of_char c)) s"

text \<open>
  \<open>String.prototype.trim\<close> removes the code units of ECMAScript's WhiteSpace and
  LineTerminator productions from both ends.
\<close>

definition isWhiteSpace :: "16 word \<Rightarrow> bool" where
  "isWhiteSpace c =
     (c \<in> set [0x09, 0x0A, 0x0B, 0x0C, 0x0D, 0x20, 0xA0, 0x1680,
                0x2028, 0x2029, 0x202F, 0x205F, 0x3000, 0xFEFF]
      \<or> (0x2000 \<le> c \<and> c \<le> 0x200A))"

definition trim :: "jsstring \<Rightarrow> jsstring" where
  "trim s = rev (dropWhile isWhiteSpace (rev (dropWhile isWhiteSpace s)))"

text \<open>\<open>s.split(c)\<close> for a one-character separator; the result is never empty.\<close>

fun splitOn :: "16 word \<Rightarrow> jsstring \<Rightarrow> jsstring list" where
  "splitOn c [] = [[]]"
| "splitOn c (x # xs) =
     (if x = c then [] # splitOn c xs
      else (case splitOn c xs of
              [] \<Rightarrow> [[x]]
            | w # ws \<Rightarrow> (x # w) # ws))"

text \<open>
  Truthiness of a value that is a string, \<open>null\<close> or \<open>undefined\<close>: \<open>None\<close> stands
  for \<open>null\<close>/\<open>undefined\<close>, and the empty string is the only falsy string.
\<close>

definition truthy :: "jsstring option \<Rightarrow> bool" where
  "truthy v = (case v of None \<Rightarrow> False | Some s \<Rightarrow> s \<noteq> [])"

text \<open>\<open>v || ''\<close> on such a value.\<close>

definition orEmpty :: "jsstring option \<Rightarrow> jsstring" where
  "orEmpty v = (if truthy v then the v else [])"

subsection \<open>Dates\<close>

text \<open>
  A \<open>Date\<close> is its time value: milliseconds since 1970-01-01T00:00:00Z. The local
  getters (\<open>getHours\<close>, \<open>getMinutes\<close>, \<open>getDay\<close>, \<open>getDate\<close>) read the time value in
  the time zone of the host that runs the server; \<open>toISOString\<close> reads it in UTC. The
  host's zone is the parameter \<open>tz\<close>, the value of \<open>getTimezoneOffset()\<close>: minutes to
  add to local time to reach UTC (0 on a UTC host, 180 on a host in Buenos Aires),
  taken as constant over the times considered.
\<close>

type_synonym Date = int

definition msPerDay :: int where
  "msPerDay = 86400000"

definition LocalTime :: "int \<Rightarrow> Date \<Rightarrow> int" where
  "LocalTime tz d = d - tz * 60000"

definition getHours :: "int \<Rightarrow> Date \<Rightarrow> int" where
  "getHours tz d = (LocalTime tz d div 3600000) mod 24"

definition getMinutes :: "int \<Rightarrow> Date \<Rightarrow> int" where
  "getMinutes tz d = (LocalTime tz d div 60000) mod 60"

text \<open>Day of the week, 0 = Sunday; 1970-01-01 was a Thursday.\<close>

definition getDay :: "int \<Rightarrow> Date \<Rightarrow> int" where
  "getDay tz d = (LocalTime tz d div msPerDay + 4) mod 7"

text \<open>
  The proleptic Gregorian date (year, month, day) of a day number counted from
  1970-01-01.
\<close>

definition civil :: "int \<Rightarrow> int \<times> int \<times> int" where
  "civil n =
     (let z = n + 719468;
          era = z div 146097;
          doe = z - era * 146097;
          yoe = (doe - doe div 1460 + doe div 36524 - doe div 146096) div 365;
          doy = doe - (365 * yoe + yoe div 4 - yoe div 100);
          mp = (5 * doy + 2) div 153;
          dd = doy - (153 * mp + 2) div 5 + 1;
          mm = (if mp < 10 then mp + 3 else mp - 9);
          yy = yoe + era * 400 + (if mm \<le> 2 then 1 else 0)
      in (yy, mm, dd))"

text \<open>
  \<open>d.toISOString().split('T')[0]\<close>: the UTC calendar date of \<open>d\<close>, kept as the triple
  that the text \<open>YYYY-MM-DD\<close> spells.
\<close>

definition isoDate :: "Date \<Rightarrow> int \<times> int \<times> int" where
  "isoDate d = civil (d div msPerDay)"

text \<open>
  The calendar date that the local getters \<open>getFullYear\<close>, \<open>getMonth\<close>, \<open>getDate\<close>
  show: the date of the local time itself.
\<close>

definition localDate :: "int \<Rightarrow> Date \<Rightarrow> int \<times> int \<times> int" where
  "localDate tz d = civil (LocalTime tz d div msPerDay)"

text \<open>
  \<open>t = new Date(d); t.setDate(d.getDate() + 1)\<close>. \<open>setDate\<close> rebuilds the local time
  from MakeDay(year, month, date + 1) and the unchanged time within the day; MakeDay
  lets the day of the month run over into the next month, so the local time moves
  forward by exactly one day.
\<close>

definition setDateNext :: "Date \<Rightarrow> Date" where
  "setDateNext d = d + msPerDay"

section \<open>Clock and cycle date\<close>

text \<open>
  \<open>getArgTime\<close>: the current instant \<open>now\<close> is printed as wall-clock time in Buenos
  Aires (UTC-3 all year, to the second) and the text is parsed again as a time of the
  host's zone.
\<close>

definition getArgTime :: "int \<Rightarrow> int \<Rightarrow> Date" where
  "getArgTime tz now = (now div 1000) * 1000 - 180 * 60000 + tz * 60000"

text \<open>
  The local time of the specification is the wall clock of Buenos Aires at \<open>now\<close>: its
  hour, minute and day of the week (0 = Sunday), whatever the zone of the host.
\<close>

definition baWallClock :: "int \<Rightarrow> int" where
  "baWallClock now = (now div 1000) * 1000 - 3 * 3600000"

definition baHour :: "int \<Rightarrow> int" where
  "baHour now = (baWallClock now div 3600000) mod 24"

definition baMinute :: "int \<Rightarrow> int" where
  "baMinute now = (baWallClock now div 60000) mod 60"

definition baWeekday :: "int \<Rightarrow> int" where
  "baWeekday now = (baWallClock now div 86400000 + 4) mod 7"

definition getCycleDate :: "int \<Rightarrow> Date \<Rightarrow> int \<times> int \<times> int" where
  "getCycleDate tz argTime =
     (let hour = getHours tz argTime in
      if hour \<ge> 14 then
        (let tomorrow = setDateNext argTime in isoDate tomorrow)
      else isoDate argTime)"

section \<open>Access window\<close>

record timeCheck =
  allowed :: bool
  isAdmin :: bool

definition DEFAULT_ADMIN_EMAILS :: "jsstring list" where
  "DEFAULT_ADMIN_EMAILS =
     [js ''juliandanielpappalettera@gmail.com'',
      js ''leandro.binetti@gmail.com'',
      js ''alanpablomarino@gmail.com'']"

text \<open>The administrator list, from the environment variable when it is set and not empty.\<close>

definition ADMIN_EMAILS :: "jsstring option \<Rightarrow> jsstring list" where
  "ADMIN_EMAILS env =
     (if truthy env then map trim (splitOn 0x2C (the env)) else DEFAULT_ADMIN_EMAILS)"

definition checkTimeRestriction :: "jsstring list \<Rightarrow> int \<Rightarrow> int \<Rightarrow> jsstring \<Rightarrow> timeCheck" where
  "checkTimeRestriction admins tz now userEmail =
     (if userEmail \<in> set admins then \<lparr>allowed = True, isAdmin = True\<rparr>
      else
        (let argTime = getArgTime tz now;
             dayOfWeek = getDay tz argTime;
             hour = getHours tz argTime;
             minute = getMinutes tz argTime;
             isWeekday = (dayOfWeek \<ge> 1 \<and> dayOfWeek \<le> 5);
             isInTimeRange = (hour \<ge> 14 \<or> hour < 10 \<or> (hour = 10 \<and> minute \<le> 15))
         in \<lparr>allowed = (isWeekday \<and> isInTimeRange), isAdmin = False\<rparr>))"

section \<open>The table of orders\<close>

text \<open>
  A row of the table \<open>pedidos\<close>. \<open>orderData\<close> holds the columns that the server
  writes; a stored row has the key \<open>id\<close> (here \<open>row_id\<close>) besides. A dish column that
  is SQL NULL reads as \<open>None\<close>. \<open>fecha\<close> is a calendar date and \<open>timestamp\<close> the
  time value of the date whose ISO text the server stores; ISO texts of one length
  compare as their time values do.
\<close>

record orderData =
  nombre :: jsstring
  email :: jsstring
  usuario :: jsstring
  plato1 :: "jsstring option"
  plato2 :: "jsstring option"
  plato3 :: "jsstring option"
  fecha :: "int \<times> int \<times> int"
  timestamp :: Date

record pedido = orderData +
  row_id :: nat

record store =
  rows :: "pedido list"
  nextId :: nat

definition mkRow :: "nat \<Rightarrow> orderData \<Rightarrow> pedido" where
  "mkRow i d =
     \<lparr>nombre = nombre d, email = email d, usuario = usuario d,
      plato1 = plato1 d, plato2 = plato2 d, plato3 = plato3 d,
      fecha = fecha d, timestamp = timestamp d, row_id = i\<rparr>"

text \<open>\<open>.select('*').eq('fecha', c).order('timestamp', {ascending: true})\<close>; rows of equal
  timestamp keep their storage order.\<close>

definition selectCycle :: "store \<Rightarrow> int \<times> int \<times> int \<Rightarrow> pedido list" where
  "selectCycle st c = sort_key timestamp (filter (\<lambda>p. fecha p = c) (rows st))"

text \<open>\<open>.select('*').eq('email', e).eq('fecha', c).single()\<close>: the data is the row when
  exactly one row matches, and null otherwise.\<close>

definition selectSingle :: "store \<Rightarrow> jsstring \<Rightarrow> int \<times> int \<times> int \<Rightarrow> pedido option" where
  "selectSingle st e c =
     (case filter (\<lambda>p. email p = e \<and> fecha p = c) (rows st) of
        [p] \<Rightarrow> Some p
      | _ \<Rightarrow> None)"

text \<open>\<open>.update(d).eq('id', i)\<close>: every column but the key is replaced.\<close>

definition updateById :: "store \<Rightarrow> nat \<Rightarrow> orderData \<Rightarrow> store" where
  "updateById st i d =
     st\<lparr>rows := map (\<lambda>p. if row_id p = i then mkRow i d else p) (rows st)\<rparr>"

text \<open>\<open>.insert([d])\<close>: the new row gets the next key.\<close>

definition insertRow :: "store \<Rightarrow> orderData \<Rightarrow> store" where
  "insertRow st d = \<lparr>rows = rows st @ [mkRow (nextId st) d], nextId = Suc (nextId st)\<rparr>"

text \<open>\<open>.delete().eq('email', e).eq('fecha', c)\<close>.\<close>

definition deleteWhere :: "store \<Rightarrow> jsstring \<Rightarrow> int \<times> int \<times> int \<Rightarrow> store" where
  "deleteWhere st e c =
     st\<lparr>rows := filter (\<lambda>p. \<not> (email p = e \<and> fecha p = c)) (rows st)\<rparr>"

text \<open>
  The outcome of a call of the store is an argument of the handler that makes it:
  \<open>None\<close> when the call goes through, \<open>Some m\<close> when it fails with \<open>error.message = m\<close>
  and leaves the table as it was.
\<close>

type_synonym fault = "jsstring option"

section \<open>Dish numbers\<close>

record dishEntry =
  dish_plato :: jsstring
  dish_email :: jsstring
  dish_timestamp :: Date

text \<open>The test \<open>plato && plato.trim() !== ''\<close>.\<close>

definition nonBlank :: "jsstring option \<Rightarrow> bool" where
  "nonBlank plato = (truthy plato \<and> trim (the plato) \<noteq> [])"

definition dishSlots :: "pedido \<Rightarrow> jsstring option list" where
  "dishSlots p = [plato1 p, plato2 p, plato3 p]"

definition pushDishes :: "pedido \<Rightarrow> dishEntry list \<Rightarrow> dishEntry list" where
  "pushDishes p acc =
     fold (\<lambda>plato a.
             if nonBlank plato then
               a @ [\<lparr>dish_plato = trim (the plato), dish_email = email p,
                     dish_timestamp = timestamp p\<rparr>]
             else a)
          (dishSlots p) acc"

definition allDishes :: "pedido list \<Rightarrow> dishEntry list" where
  "allDishes pedidos = fold pushDishes pedidos []"

definition dishNumbers :: "pedido list \<Rightarrow> jsstring \<Rightarrow> nat list" where
  "dishNumbers pedidos userEmail =
     fold (\<lambda>(index, dish) a. if dish_email dish = userEmail then a @ [index + 1] else a)
          (enumerate 0 (allDishes pedidos)) []"

definition calculateDishNumbers :: "int \<Rightarrow> int \<Rightarrow> fault \<Rightarrow> store \<Rightarrow> jsstring \<Rightarrow> nat list" where
  "calculateDishNumbers tz now queryFault st userEmail =
     (let argTime = getArgTime tz now;
          cycleDate = getCycleDate tz argTime
      in case queryFault of
           Some m \<Rightarrow> []
         | None \<Rightarrow> dishNumbers (selectCycle st cycleDate) userEmail)"

section \<open>Responses\<close>

text \<open>
  What \<open>res.status(n).json({...})\<close> sends: the HTTP status (200 when \<open>res.json\<close> is
  called alone), the \<open>success\<close> flag, the \<open>message\<close> when there is one, and the
  other fields of the body as \<open>payload\<close>.
\<close>

record 'a response =
  status :: nat
  success :: bool
  message :: "jsstring option"
  payload :: "'a option"

text \<open>Decimal text of a number, and \<open>xs.join(', ')\<close> on numbers.\<close>

fun showNat :: "nat \<Rightarrow> jsstring" where
  "showNat n =
     (if n < 10 then [of_nat (48 + n)]
      else showNat (n div 10) @ [of_nat (48 + n mod 10)])"

fun joinNumbers :: "nat list \<Rightarrow> jsstring" where
  "joinNumbers [] = []"
| "joinNumbers [n] = showNat n"
| "joinNumbers (n # ns) = showNat n @ js '', '' @ joinNumbers ns"

definition MSG_WINDOW :: jsstring where
  "MSG_WINDOW =
     js ''La app solo est'' @ [0xE1] @ js '' disponible de lunes a viernes de 14:00 a 10:15''"

section \<open>Creating and updating an order\<close>

datatype action = Created | Updated

record reqBody =
  body_nombre :: "jsstring option"
  body_plato1 :: "jsstring option"
  body_plato2 :: "jsstring option"
  body_plato3 :: "jsstring option"

record submitFaults =
  selectFault :: fault
  writeFault :: fault
  listFault :: fault

record submitPayload =
  res_action :: action
  res_dishNumbers :: "nat list"
  res_totalPlatos :: nat

definition submitMessage :: "action \<Rightarrow> nat list \<Rightarrow> jsstring" where
  "submitMessage act nums =
     (let message =
            (if act = Updated then js ''Pedido actualizado correctamente''
             else js ''Pedido registrado correctamente'')
      in if length nums > 0 then
           message @
             (if length nums = 1 then
                js ''. Tu plato es el n'' @ [0xFA] @ js ''mero '' @ showNat (hd nums)
              else js ''. Tus platos son los n'' @ [0xFA] @ js ''meros '' @ joinNumbers nums)
         else message)"

text \<open>The end of the handler, after the write: numbering and the success response.\<close>

definition submitDone ::
  "int \<Rightarrow> int \<Rightarrow> fault \<Rightarrow> store \<Rightarrow> jsstring \<Rightarrow> action \<Rightarrow> submitPayload response" where
  "submitDone tz now lf st userEmail act =
     (let nums = calculateDishNumbers tz now lf st userEmail
      in \<lparr>status = 200, success = True, message = Some (submitMessage act nums),
          payload = Some \<lparr>res_action = act, res_dishNumbers = nums,
                           res_totalPlatos = length nums\<rparr>\<rparr>)"

definition submitError :: "jsstring \<Rightarrow> submitPayload response" where
  "submitError m =
     \<lparr>status = 500, success = False,
      message = Some (js ''Error al procesar el pedido: '' @ m), payload = None\<rparr>"

text \<open>
  The data of the first query of the handler, \<open>existingOrder\<close>: the error of the query
  is not looked at, so a failed query reads as no order.
\<close>

definition existingOrder ::
  "fault \<Rightarrow> store \<Rightarrow> jsstring \<Rightarrow> int \<times> int \<times> int \<Rightarrow> pedido option" where
  "existingOrder sf st userEmail cycleDate =
     (case sf of
        Some m \<Rightarrow> None
      | None \<Rightarrow> selectSingle st userEmail cycleDate)"

text \<open>The object \<open>orderData\<close> that the handler writes.\<close>

definition makeOrderData :: "int \<Rightarrow> int \<Rightarrow> jsstring \<Rightarrow> reqBody \<Rightarrow> orderData" where
  "makeOrderData tz now userEmail body =
     \<lparr>nombre = trim (the (body_nombre body)),
      email = userEmail,
      usuario = takeWhile (\<lambda>c. c \<noteq> 0x40) userEmail,
      plato1 = Some (orEmpty (body_plato1 body)),
      plato2 = Some (orEmpty (body_plato2 body)),
      plato3 = Some (orEmpty (body_plato3 body)),
      fecha = getCycleDate tz (getArgTime tz now),
      timestamp = getArgTime tz now\<rparr>"

text \<open>
  \<open>app.post('/api/pedidos')\<close> for the verified identity \<open>userEmail\<close>. The fields of the
  request body are strings or absent. All clock readings of one request show the same
  second \<open>now\<close>.
\<close>

definition submit ::
  "jsstring list \<Rightarrow> int \<Rightarrow> int \<Rightarrow> submitFaults \<Rightarrow> store \<Rightarrow> jsstring \<Rightarrow> reqBody
     \<Rightarrow> submitPayload response \<times> store" where
  "submit admins tz now fs st userEmail body =
     (let timeCheck = checkTimeRestriction admins tz now userEmail in
      if \<not> allowed timeCheck then
        (\<lparr>status = 403, success = False, message = Some MSG_WINDOW, payload = None\<rparr>, st)
      else if \<not> truthy (body_nombre body) \<or> trim (the (body_nombre body)) = [] then
        (\<lparr>status = 400, success = False,
          message = Some (js ''Por favor ingresa tu nombre''), payload = None\<rparr>, st)
      else if \<not> truthy (body_plato1 body) then
        (\<lparr>status = 400, success = False,
          message = Some (js ''Por favor selecciona al menos el plato principal''),
          payload = None\<rparr>, st)
      else
        (let argTime = getArgTime tz now;
             cycleDate = getCycleDate tz argTime;
             orderData = makeOrderData tz now userEmail body
         in case existingOrder (selectFault fs) st userEmail cycleDate of
              Some ex \<Rightarrow>
                (case writeFault fs of
                   Some m \<Rightarrow> (submitError m, st)
                 | None \<Rightarrow>
                     (let st' = updateById st (row_id ex) orderData
                      in (submitDone tz now (listFault fs) st' userEmail Updated, st')))
            | None \<Rightarrow>
                (case writeFault fs of
                   Some m \<Rightarrow> (submitError m, st)
                 | None \<Rightarrow>
                     (let st' = insertRow st orderData
                      in (submitDone tz now (listFault fs) st' userEmail Created, st')))))"

section \<open>Statistics of the cycle\<close>

record person =
  person_nombre :: jsstring
  person_usuario :: jsstring
  person_timestamp :: Date
  person_plato1 :: "jsstring option"
  person_plato2 :: "jsstring option"
  person_plato3 :: "jsstring option"

text \<open>
  \<open>menuStats\<close> is a plain object used as a dictionary from dish text to count, so it
  inherits the properties of \<open>Object.prototype\<close>. A value of it is a number, or a text
  once \<open>+ 1\<close> has been applied to something that is not a number.
\<close>

datatype statValue = Count nat | Garbled jsstring

record stats =
  totalOrders :: nat
  menuStats :: "jsstring \<rightharpoonup> statValue"
  peopleList :: "person list"

text \<open>
  The functions that a plain object inherits, by property name, as Node prints them:
  \<open>constructor\<close> is the function \<open>Object\<close>, the others carry their own name.
\<close>

definition nativeText :: "jsstring \<Rightarrow> jsstring" where
  "nativeText name = js ''function '' @ name @ js ''() { [native code] }''"

definition inheritedText :: "jsstring \<Rightarrow> jsstring option" where
  "inheritedText k =
     (if k = js ''constructor'' then Some (nativeText (js ''Object''))
      else if k \<in> set [js ''__defineGetter__'', js ''__defineSetter__'',
                         js ''hasOwnProperty'', js ''__lookupGetter__'',
                         js ''__lookupSetter__'', js ''isPrototypeOf'',
                         js ''propertyIsEnumerable'', js ''toString'', js ''valueOf'',
                         js ''toLocaleString''] then Some (nativeText k)
      else None)"

text \<open>
  \<open>stats.menuStats[plato] = (stats.menuStats[plato] || 0) + 1\<close>. An own property that
  is a number is counted up, and one that is a text gets \<open>1\<close> appended. Of the names
  that are not own properties yet, \<open>__proto__\<close> reads as the prototype object and its
  setter ignores the text assigned, so nothing is stored; the name of an inherited
  function stores the function's text with \<open>1\<close> appended; any other name starts at 1.
\<close>

definition countDish ::
  "jsstring option \<Rightarrow> (jsstring \<rightharpoonup> statValue) \<Rightarrow> (jsstring \<rightharpoonup> statValue)" where
  "countDish plato m =
     (if nonBlank plato then
        (case m (the plato) of
           Some (Count n) \<Rightarrow> m(the plato \<mapsto> Count (n + 1))
         | Some (Garbled s) \<Rightarrow>
             m(the plato \<mapsto> (if s = [] then Count 1 else Garbled (s @ js ''1'')))
         | None \<Rightarrow>
             (if the plato = js ''__proto__'' then m
              else (case inheritedText (the plato) of
                      Some t \<Rightarrow> m(the plato \<mapsto> Garbled (t @ js ''1''))
                    | None \<Rightarrow> m(the plato \<mapsto> Count 1))))
      else m)"

definition addPedido :: "pedido \<Rightarrow> stats \<Rightarrow> stats" where
  "addPedido p s =
     s\<lparr>peopleList :=
          peopleList s @
            [\<lparr>person_nombre = nombre p, person_usuario = usuario p,
              person_timestamp = timestamp p, person_plato1 = plato1 p,
              person_plato2 = plato2 p, person_plato3 = plato3 p\<rparr>],
        menuStats := fold countDish (dishSlots p) (menuStats s)\<rparr>"

definition getStats :: "int \<Rightarrow> int \<Rightarrow> fault \<Rightarrow> store \<Rightarrow> stats response" where
  "getStats tz now queryFault st =
     (let argTime = getArgTime tz now;
          cycleDate = getCycleDate tz argTime
      in case queryFault of
           None \<Rightarrow>
             (let pedidos = selectCycle st cycleDate;
                  stats0 = \<lparr>totalOrders = length pedidos, menuStats = Map.empty,
                            peopleList = []\<rparr>
              in \<lparr>status = 200, success = True, message = None,
                  payload = Some (fold addPedido pedidos stats0)\<rparr>)
         | Some m \<Rightarrow>
             \<lparr>status = 500, success = False,
              message = Some (js ''Error al obtener estad'' @ [0xED] @ js ''sticas: '' @ m),
              payload = Some \<lparr>totalOrders = 0, menuStats = Map.empty, peopleList = []\<rparr>\<rparr>)"

section \<open>Cancelling an order\<close>

definition cancel ::
  "jsstring list \<Rightarrow> int \<Rightarrow> int \<Rightarrow> fault \<Rightarrow> store \<Rightarrow> jsstring \<Rightarrow> unit response \<times> store" where
  "cancel admins tz now deleteFault st userEmail =
     (let argTime = getArgTime tz now;
          cycleDate = getCycleDate tz argTime;
          timeCheck = checkTimeRestriction admins tz now userEmail
      in if \<not> allowed timeCheck then
           (\<lparr>status = 403, success = False, message = Some MSG_WINDOW, payload = None\<rparr>, st)
         else
           (case deleteFault of
              Some m \<Rightarrow>
                (\<lparr>status = 500, success = False,
                  message = Some (js ''Error al cancelar el pedido: '' @ m),
                  payload = None\<rparr>, st)
            | None \<Rightarrow>
                (\<lparr>status = 200, success = True,
                  message = Some (js ''Pedido cancelado correctamente''), payload = None\<rparr>,
                 deleteWhere st userEmail cycleDate)))"

section \<open>Dish numbers in the words of the specification\<close>

text \<open>
  The numbering as the specification words it: the owners of the dish slots that are
  not blank, record after record and slot after slot, and the 1-based positions that an
  identity has in that sequence. \<open>dishCount\<close> is the number of dishes of a record.
\<close>

definition dishCount :: "pedido \<Rightarrow> nat" where
  "dishCount p = length (filter nonBlank (dishSlots p))"

definition flattenOwners :: "pedido list \<Rightarrow> jsstring list" where
  "flattenOwners pedidos =
     concat (map (\<lambda>p. map (\<lambda>plato. email p) (filter nonBlank (dishSlots p))) pedidos)"

definition positionsOf :: "jsstring \<Rightarrow> jsstring list \<Rightarrow> nat list" where
  "positionsOf u owners = filter (\<lambda>k. owners ! (k - 1) = u) [1..<Suc (length owners)]"

text \<open>A row of the cycle 2024-01-16, for the examples.\<close>

definition exRow :: "nat \<Rightarrow> string \<Rightarrow> string \<Rightarrow> string \<Rightarrow> string \<Rightarrow> Date \<Rightarrow> pedido" where
  "exRow i e a b c t =
     \<lparr>nombre = js e, email = js e, usuario = takeWhile (\<lambda>c. c \<noteq> 0x40) (js e),
      plato1 = Some (js a), plato2 = Some (js b), plato3 = Some (js c),
      fecha = (2024, 1, 16), timestamp = t, row_id = i\<rparr>"

section \<open>Menu and example data\<close>

text \<open>The configured menu, which \<open>GET /api/menu\<close> returns.\<close>

definition MENU_ITEMS :: "jsstring list" where
  "MENU_ITEMS =
     [js ''Tarta - jam'' @ [0xF3] @ js ''n y queso'',
      js ''Tarta - capresse'',
      js ''Tarta - br'' @ [0xF3] @ js ''coli'',
      js ''Tarta - zapallito'',
      js ''Tarta - pollo'',
      js ''Tarta - calabaza'',
      js ''Tortilla de papa'',
      js ''Pastel de papa'',
      js ''Ensalada C'' @ [0xE9] @ js ''sar'',
      js ''Ensalada Completa'',
      js ''Fideos con bolognesa'',
      js ''Fideos con salsa de tomate'']"

text \<open>No store call of a submission fails.\<close>

definition noFaults :: submitFaults where
  "noFaults = \<lparr>selectFault = None, writeFault = None, listFault = None\<rparr>"

text \<open>Data for the examples: a request body with all four fields, and an empty table.\<close>

definition exBody :: "string \<Rightarrow> string \<Rightarrow> string \<Rightarrow> string \<Rightarrow> reqBody" where
  "exBody n a b c =
     \<lparr>body_nombre = Some (js n), body_plato1 = Some (js a),
      body_plato2 = Some (js b), body_plato3 = Some (js c)\<rparr>"

definition emptyStore :: store where
  "emptyStore = \<lparr>rows = [], nextId = 1\<rparr>"

section \<open>The table's invariants\<close>

text \<open>
  What the database guarantees of the table: keys are unique, and below the next key.
\<close>

definition storeOk :: "store \<Rightarrow> bool" where
  "storeOk st =
     (distinct (map row_id (rows st)) \<and> list_all (\<lambda>p. row_id p < nextId st) (rows st))"

text \<open>The rows of an identity in a cycle.\<close>

definition ordersOf :: "store \<Rightarrow> jsstring \<Rightarrow> int \<times> int \<times> int \<Rightarrow> pedido list" where
  "ordersOf st e c = filter (\<lambda>p. email p = e \<and> fecha p = c) (rows st)"

text \<open>The number of dishes that a request body brings, as the numbering counts them.\<close>

definition bodyDishCount :: "reqBody \<Rightarrow> nat" where
  "bodyDishCount body =
     length (filter nonBlank
               [Some (orEmpty (body_plato1 body)), Some (orEmpty (body_plato2 body)),
                Some (orEmpty (body_plato3 body))])"

section \<open>Properties of the clock and of the cycle date\<close>

lemma LocalTime_getArgTime: "LocalTime tz (getArgTime tz now) = baWallClock now"
  by (simp add: LocalTime_def getArgTime_def baWallClock_def)

lemma getHours_getArgTime: "getHours tz (getArgTime tz now) = baHour now"
  by (simp add: getHours_def baHour_def LocalTime_getArgTime)

lemma getMinutes_getArgTime: "getMinutes tz (getArgTime tz now) = baMinute now"
  by (simp add: getMinutes_def baMinute_def LocalTime_getArgTime)

lemma getDay_getArgTime: "getDay tz (getArgTime tz now) = baWeekday now"
  by (simp add: getDay_def baWeekday_def LocalTime_getArgTime msPerDay_def)

text \<open>
  On a host whose zone is UTC the UTC date that \<open>toISOString\<close> prints is the local
  date, and the cycle date is the local date, moved one day on from 14:00.
\<close>

lemma getCycleDate_utc_host:
  "getCycleDate 0 d =
     (if getHours 0 d \<ge> 14 then localDate 0 (d + msPerDay) else localDate 0 d)"
  by (simp add: getCycleDate_def localDate_def isoDate_def LocalTime_def setDateNext_def Let_def)

text \<open>
  C1. The cycle date should be the calendar date of the local time, one day later when
  the local hour is at least 14. On a host in the zone of Buenos Aires itself
  (\<open>tz = 180\<close>) the server does otherwise: at the instant 2024-01-16T00:30:00Z the local
  time is Monday 2024-01-15 21:30, the local date one day later is 2024-01-16, and
  \<open>getCycleDate\<close> answers 2024-01-17, the UTC date of the moved time.
\<close>

theorem getCycleDate_buenos_aires_host:
  "getHours 180 (getArgTime 180 1705365000000) = 21
   \<and> localDate 180 (getArgTime 180 1705365000000) = (2024, 1, 15)
   \<and> localDate 180 (getArgTime 180 1705365000000 + msPerDay) = (2024, 1, 16)
   \<and> getCycleDate 180 (getArgTime 180 1705365000000) = (2024, 1, 17)"
  by code_simp

section \<open>Properties of the access window\<close>

text \<open>
  C2. An identity of the administrator list is allowed, and flagged as administrator,
  at every instant and on every host: no day of the week, hour or minute is looked at.
\<close>

theorem admin_always_allowed:
  "userEmail \<in> set admins \<Longrightarrow>
   checkTimeRestriction admins tz now userEmail = \<lparr>allowed = True, isAdmin = True\<rparr>"
  by (simp add: checkTimeRestriction_def)

text \<open>An administrator of the built-in list on Saturday 2024-01-20 at 03:00.\<close>

theorem admin_always_allowed_witness:
  "js ''leandro.binetti@gmail.com'' \<in> set (ADMIN_EMAILS None)
   \<and> baWeekday 1705730400000 = 6 \<and> baHour 1705730400000 = 3
   \<and> checkTimeRestriction (ADMIN_EMAILS None) 0 1705730400000
         (js ''leandro.binetti@gmail.com'')
       = \<lparr>allowed = True, isAdmin = True\<rparr>"
proof -
  have h: "js ''leandro.binetti@gmail.com'' \<in> set (ADMIN_EMAILS None)"
    by code_simp
  have w: "baWeekday 1705730400000 = 6 \<and> baHour 1705730400000 = 3"
    by code_simp
  from h w admin_always_allowed [OF h, of 0 1705730400000] show ?thesis
    by simp
qed

text \<open>
  C3. For an identity outside the administrator list the answer is not flagged as
  administrator, and it is allowed exactly when the day of the week in Buenos Aires is
  Monday to Friday and the time of day is 14:00 or later, before 10:00, or from 10:00
  to 10:15.
\<close>

theorem non_admin_window:
  "userEmail \<notin> set admins \<Longrightarrow>
   isAdmin (checkTimeRestriction admins tz now userEmail) = False
   \<and> allowed (checkTimeRestriction admins tz now userEmail) =
       ((1 \<le> baWeekday now \<and> baWeekday now \<le> 5)
        \<and> (baHour now \<ge> 14 \<or> baHour now < 10
            \<or> (baHour now = 10 \<and> baMinute now \<le> 15)))"
  by (simp add: checkTimeRestriction_def Let_def getHours_getArgTime
        getMinutes_getArgTime getDay_getArgTime)

text \<open>
  Monday 14:00 allowed, Monday 13:59 denied, Tuesday 10:15 allowed, Tuesday 10:16
  denied, Saturday 15:00 denied (15 to 20 January 2024).
\<close>

theorem non_admin_window_witness:
  "js ''ana@x.com'' \<notin> set (ADMIN_EMAILS None)
   \<and> (baWeekday 1705338000000, baHour 1705338000000, baMinute 1705338000000) = (1, 14, 0)
   \<and> allowed (checkTimeRestriction (ADMIN_EMAILS None) 0 1705338000000 (js ''ana@x.com''))
   \<and> (baWeekday 1705337940000, baHour 1705337940000, baMinute 1705337940000) = (1, 13, 59)
   \<and> \<not> allowed (checkTimeRestriction (ADMIN_EMAILS None) 0 1705337940000 (js ''ana@x.com''))
   \<and> (baWeekday 1705410900000, baHour 1705410900000, baMinute 1705410900000) = (2, 10, 15)
   \<and> allowed (checkTimeRestriction (ADMIN_EMAILS None) 0 1705410900000 (js ''ana@x.com''))
   \<and> (baWeekday 1705410960000, baHour 1705410960000, baMinute 1705410960000) = (2, 10, 16)
   \<and> \<not> allowed (checkTimeRestriction (ADMIN_EMAILS None) 0 1705410960000 (js ''ana@x.com''))
   \<and> (baWeekday 1705773600000, baHour 1705773600000, baMinute 1705773600000) = (6, 15, 0)
   \<and> \<not> allowed (checkTimeRestriction (ADMIN_EMAILS None) 0 1705773600000 (js ''ana@x.com''))"
proof -
  have h: "js ''ana@x.com'' \<notin> set (ADMIN_EMAILS None)"
    by code_simp
  have t1: "(baWeekday 1705338000000, baHour 1705338000000, baMinute 1705338000000) = (1, 14, 0)"
    by code_simp
  have t2: "(baWeekday 1705337940000, baHour 1705337940000, baMinute 1705337940000) = (1, 13, 59)"
    by code_simp
  have t3: "(baWeekday 1705410900000, baHour 1705410900000, baMinute 1705410900000) = (2, 10, 15)"
    by code_simp
  have t4: "(baWeekday 1705410960000, baHour 1705410960000, baMinute 1705410960000) = (2, 10, 16)"
    by code_simp
  have t5: "(baWeekday 1705773600000, baHour 1705773600000, baMinute 1705773600000) = (6, 15, 0)"
    by code_simp
  from h t1 t2 t3 t4 t5
    non_admin_window [OF h, of 0 1705338000000]
    non_admin_window [OF h, of 0 1705337940000]
    non_admin_window [OF h, of 0 1705410900000]
    non_admin_window [OF h, of 0 1705410960000]
    non_admin_window [OF h, of 0 1705773600000]
  show ?thesis
    by simp
qed

section \<open>Properties of the dish numbers\<close>

lemma fold_push_filter:
  "fold (\<lambda>x a. if P x then a @ [f x] else a) xs acc = acc @ map f (filter P xs)"
  by (induction xs arbitrary: acc) simp_all

lemma pushDishes_append:
  "pushDishes p acc =
     acc @ map (\<lambda>plato. \<lparr>dish_plato = trim (the plato), dish_email = email p,
                          dish_timestamp = timestamp p\<rparr>)
             (filter nonBlank (dishSlots p))"
  unfolding pushDishes_def by (rule fold_push_filter)

lemma fold_pushDishes:
  "fold pushDishes ps acc = acc @ concat (map (\<lambda>p. pushDishes p []) ps)"
proof (induction ps arbitrary: acc)
  case Nil
  then show ?case by simp
next
  case (Cons p ps)
  have "pushDishes p acc = acc @ pushDishes p []"
    by (simp add: pushDishes_append)
  with Cons show ?case by simp
qed

lemma owners_allDishes: "map dish_email (allDishes ps) = flattenOwners ps"
  by (simp add: allDishes_def fold_pushDishes flattenOwners_def pushDishes_append
        map_concat comp_def)

lemma platos_allDishes:
  "map dish_plato (allDishes ps) =
     concat (map (\<lambda>p. map (\<lambda>plato. trim (the plato)) (filter nonBlank (dishSlots p))) ps)"
  by (simp add: allDishes_def fold_pushDishes pushDishes_append map_concat comp_def)

lemma fold_push_enumerate:
  "fold (\<lambda>(index, dish) a. if Q dish then a @ [index + 1] else a) xs acc =
     acc @ map (\<lambda>(index, dish). index + 1) (filter (\<lambda>(index, dish). Q dish) xs)"
  by (induction xs arbitrary: acc) (simp_all add: case_prod_beta)

lemma enumerate_map_nth: "enumerate 0 ds = map (\<lambda>i. (i, ds ! i)) [0..<length ds]"
  by (rule nth_equalityI) (simp_all add: nth_enumerate_eq)

lemma dishNumbers_positions:
  "dishNumbers ps u = positionsOf u (flattenOwners ps)"
proof -
  let ?ds = "allDishes ps"
  have len: "length (flattenOwners ps) = length ?ds"
    using owners_allDishes [of ps, symmetric] by simp
  have "dishNumbers ps u =
          map Suc (filter (\<lambda>i. dish_email (?ds ! i) = u) [0..<length ?ds])"
    by (simp add: dishNumbers_def fold_push_enumerate enumerate_map_nth filter_map comp_def)
  also have "\<dots> = map Suc (filter (\<lambda>i. flattenOwners ps ! i = u) [0..<length ?ds])"
    by (rule arg_cong [where f = "map Suc"], rule filter_cong)
       (simp_all add: owners_allDishes [symmetric])
  also have "\<dots> = filter (\<lambda>k. flattenOwners ps ! (k - 1) = u) (map Suc [0..<length ?ds])"
    by (simp add: filter_map comp_def)
  also have "map Suc [0..<length ?ds] = [1..<Suc (length ?ds)]"
    by (simp add: map_Suc_upt)
  finally show ?thesis by (simp add: positionsOf_def len)
qed

lemma positionsOf_ascending: "sorted_wrt (<) (positionsOf u owners)"
  unfolding positionsOf_def by (rule sorted_wrt_filter) (rule sorted_wrt_upt)

lemma selectCycle_sorted: "sorted (map timestamp (selectCycle st c))"
  by (simp add: selectCycle_def)

lemma selectCycle_set: "set (selectCycle st c) = {p \<in> set (rows st). fecha p = c}"
  by (auto simp add: selectCycle_def)

lemma flattenOwners_replicate:
  "flattenOwners ps = concat (map (\<lambda>p. replicate (dishCount p) (email p)) ps)"
  by (simp add: flattenOwners_def dishCount_def map_replicate_const)

lemma three_records:
  assumes "email r1 \<noteq> email r2" "email r1 \<noteq> email r3" "email r2 \<noteq> email r3"
    and "dishCount r1 = 2" "dishCount r2 = 1" "dishCount r3 = 3"
  shows "dishNumbers [r1, r2, r3] (email r1) = [1, 2]"
    and "dishNumbers [r1, r2, r3] (email r2) = [3]"
    and "dishNumbers [r1, r2, r3] (email r3) = [4, 5, 6]"
  using assms
  by (simp_all add: dishNumbers_positions flattenOwners_replicate positionsOf_def
        numeral_eq_Suc upt_rec)


lemma calculateDishNumbers_ok:
  "calculateDishNumbers tz now None st u =
     dishNumbers (selectCycle st (getCycleDate tz (getArgTime tz now))) u"
  by (simp add: calculateDishNumbers_def Let_def)

text \<open>
  C4. The dishes that the numbering collects are the non-blank slots of the records in
  record order and, within a record, in the order plato1, plato2, plato3; the numbers
  returned for an identity are exactly the 1-based positions of its dishes in that
  sequence, in ascending order. The sequence numbered by \<open>calculateDishNumbers\<close> is the
  cycle's records in ascending order of timestamp. Three records of different
  identities with 2, 1 and 3 dishes get the numbers 1-2, 3 and 4-6.
\<close>

theorem dish_numbering:
  "map dish_email (allDishes pedidos) = flattenOwners pedidos
   \<and> dishNumbers pedidos u = positionsOf u (flattenOwners pedidos)
   \<and> sorted_wrt (<) (dishNumbers pedidos u)
   \<and> sorted (map timestamp (selectCycle st (getCycleDate tz (getArgTime tz now))))
   \<and> calculateDishNumbers tz now None st u =
       positionsOf u (flattenOwners (selectCycle st (getCycleDate tz (getArgTime tz now))))
   \<and> (email r1 \<noteq> email r2 \<and> email r1 \<noteq> email r3 \<and> email r2 \<noteq> email r3
        \<and> dishCount r1 = 2 \<and> dishCount r2 = 1 \<and> dishCount r3 = 3
      \<longrightarrow> dishNumbers [r1, r2, r3] (email r1) = [1, 2]
          \<and> dishNumbers [r1, r2, r3] (email r2) = [3]
          \<and> dishNumbers [r1, r2, r3] (email r3) = [4, 5, 6])"
  using three_records [of r1 r2 r3]
  by (simp add: owners_allDishes dishNumbers_positions positionsOf_ascending
        selectCycle_sorted calculateDishNumbers_ok)

text \<open>
  Three rows stored out of order, with timestamps 10, 20 and 30 and with 2, 1 and 3
  dishes: an empty slot and a slot of spaces are not dishes.
\<close>

theorem dish_numbering_witness:
  "email (exRow 1 ''a@x.com'' ''Tortilla de papa'' '''' ''Pastel de papa'' 10)
     \<noteq> email (exRow 2 ''b@x.com'' ''Tarta - pollo'' ''  '' '''' 20)
   \<and> email (exRow 1 ''a@x.com'' ''Tortilla de papa'' '''' ''Pastel de papa'' 10)
     \<noteq> email (exRow 3 ''c@x.com'' ''Tarta - pollo'' ''Tarta - pollo'' ''Pastel de papa'' 30)
   \<and> email (exRow 2 ''b@x.com'' ''Tarta - pollo'' ''  '' '''' 20)
     \<noteq> email (exRow 3 ''c@x.com'' ''Tarta - pollo'' ''Tarta - pollo'' ''Pastel de papa'' 30)
   \<and> dishCount (exRow 1 ''a@x.com'' ''Tortilla de papa'' '''' ''Pastel de papa'' 10) = 2
   \<and> dishCount (exRow 2 ''b@x.com'' ''Tarta - pollo'' ''  '' '''' 20) = 1
   \<and> dishCount (exRow 3 ''c@x.com'' ''Tarta - pollo'' ''Tarta - pollo'' ''Pastel de papa'' 30) = 3
   \<and> selectCycle
        \<lparr>rows = [exRow 3 ''c@x.com'' ''Tarta - pollo'' ''Tarta - pollo'' ''Pastel de papa'' 30,
                 exRow 1 ''a@x.com'' ''Tortilla de papa'' '''' ''Pastel de papa'' 10,
                 exRow 2 ''b@x.com'' ''Tarta - pollo'' ''  '' '''' 20], nextId = 4\<rparr>
        (2024, 1, 16)
       = [exRow 1 ''a@x.com'' ''Tortilla de papa'' '''' ''Pastel de papa'' 10,
          exRow 2 ''b@x.com'' ''Tarta - pollo'' ''  '' '''' 20,
          exRow 3 ''c@x.com'' ''Tarta - pollo'' ''Tarta - pollo'' ''Pastel de papa'' 30]
   \<and> dishNumbers
        [exRow 1 ''a@x.com'' ''Tortilla de papa'' '''' ''Pastel de papa'' 10,
         exRow 2 ''b@x.com'' ''Tarta - pollo'' ''  '' '''' 20,
         exRow 3 ''c@x.com'' ''Tarta - pollo'' ''Tarta - pollo'' ''Pastel de papa'' 30]
        (js ''a@x.com'') = [1, 2]
   \<and> dishNumbers
        [exRow 1 ''a@x.com'' ''Tortilla de papa'' '''' ''Pastel de papa'' 10,
         exRow 2 ''b@x.com'' ''Tarta - pollo'' ''  '' '''' 20,
         exRow 3 ''c@x.com'' ''Tarta - pollo'' ''Tarta - pollo'' ''Pastel de papa'' 30]
        (js ''b@x.com'') = [3]
   \<and> dishNumbers
        [exRow 1 ''a@x.com'' ''Tortilla de papa'' '''' ''Pastel de papa'' 10,
         exRow 2 ''b@x.com'' ''Tarta - pollo'' ''  '' '''' 20,
         exRow 3 ''c@x.com'' ''Tarta - pollo'' ''Tarta - pollo'' ''Pastel de papa'' 30]
        (js ''c@x.com'') = [4, 5, 6]"
proof -
  let ?r1 = "exRow 1 ''a@x.com'' ''Tortilla de papa'' '''' ''Pastel de papa'' 10"
  let ?r2 = "exRow 2 ''b@x.com'' ''Tarta - pollo'' ''  '' '''' 20"
  let ?r3 = "exRow 3 ''c@x.com'' ''Tarta - pollo'' ''Tarta - pollo'' ''Pastel de papa'' 30"
  have h: "email ?r1 \<noteq> email ?r2 \<and> email ?r1 \<noteq> email ?r3 \<and> email ?r2 \<noteq> email ?r3
           \<and> dishCount ?r1 = 2 \<and> dishCount ?r2 = 1 \<and> dishCount ?r3 = 3"
    by code_simp
  have s: "selectCycle \<lparr>rows = [?r3, ?r1, ?r2], nextId = 4\<rparr> (2024, 1, 16) = [?r1, ?r2, ?r3]"
    by code_simp
  have e: "email ?r1 = js ''a@x.com'' \<and> email ?r2 = js ''b@x.com'' \<and> email ?r3 = js ''c@x.com''"
    by (simp add: exRow_def)
  from h s e dish_numbering [of "[]" "[]" "\<lparr>rows = [], nextId = 0\<rparr>" 0 0 ?r1 ?r2 ?r3]
  show ?thesis by metis
qed

section \<open>Properties of the handlers\<close>

lemma trim_Nil: "trim [] = []"
  by (simp add: trim_def)

lemma trim_nonempty: "trim s \<noteq> [] \<Longrightarrow> s \<noteq> []"
  by (auto simp add: trim_Nil)

text \<open>
  C7. Within the access window, a submission whose name is missing or empty after
  trimming is answered 400 with the request for the name, and one with a name but with a
  first dish that is missing or empty is answered 400 with the request for the main
  dish; neither touches the table. With a name and any non-empty text as first dish,
  whatever the second and third dish and whether or not the text is an item of the menu,
  the submission passes validation: the answer is neither 400 nor 403, and it is the
  success answer when the write goes through.
\<close>

theorem submit_validation:
  assumes "allowed (checkTimeRestriction admins tz now u)"
  shows "((case body_nombre body of None \<Rightarrow> True | Some s \<Rightarrow> trim s = [])
          \<longrightarrow> submit admins tz now fs st u body =
                (\<lparr>status = 400, success = False,
                  message = Some (js ''Por favor ingresa tu nombre''), payload = None\<rparr>, st))
       \<and> ((case body_nombre body of None \<Rightarrow> False | Some s \<Rightarrow> trim s \<noteq> [])
            \<and> (body_plato1 body = None \<or> body_plato1 body = Some [])
          \<longrightarrow> submit admins tz now fs st u body =
                (\<lparr>status = 400, success = False,
                  message = Some (js ''Por favor selecciona al menos el plato principal''),
                  payload = None\<rparr>, st))
       \<and> ((case body_nombre body of None \<Rightarrow> False | Some s \<Rightarrow> trim s \<noteq> [])
            \<and> (case body_plato1 body of None \<Rightarrow> False | Some p \<Rightarrow> p \<noteq> [])
          \<longrightarrow> status (fst (submit admins tz now fs st u body)) \<noteq> 400
              \<and> status (fst (submit admins tz now fs st u body)) \<noteq> 403
              \<and> (writeFault fs = None
                   \<longrightarrow> status (fst (submit admins tz now fs st u body)) = 200
                       \<and> success (fst (submit admins tz now fs st u body))))"
proof (intro conjI impI)
  assume "case body_nombre body of None \<Rightarrow> True | Some s \<Rightarrow> trim s = []"
  then have "\<not> truthy (body_nombre body) \<or> trim (the (body_nombre body)) = []"
    by (auto simp add: truthy_def split: option.splits)
  with assms show "submit admins tz now fs st u body =
      (\<lparr>status = 400, success = False,
        message = Some (js ''Por favor ingresa tu nombre''), payload = None\<rparr>, st)"
    by (simp add: submit_def)
next
  assume a: "(case body_nombre body of None \<Rightarrow> False | Some s \<Rightarrow> trim s \<noteq> [])
             \<and> (body_plato1 body = None \<or> body_plato1 body = Some [])"
  then have n: "truthy (body_nombre body) \<and> trim (the (body_nombre body)) \<noteq> []"
    by (auto simp add: truthy_def trim_Nil split: option.splits)
  from a have p: "\<not> truthy (body_plato1 body)"
    by (auto simp add: truthy_def)
  from assms n p show "submit admins tz now fs st u body =
      (\<lparr>status = 400, success = False,
        message = Some (js ''Por favor selecciona al menos el plato principal''),
        payload = None\<rparr>, st)"
    by (simp add: submit_def)
next
  assume a: "(case body_nombre body of None \<Rightarrow> False | Some s \<Rightarrow> trim s \<noteq> [])
             \<and> (case body_plato1 body of None \<Rightarrow> False | Some p \<Rightarrow> p \<noteq> [])"
  then have n: "truthy (body_nombre body) \<and> trim (the (body_nombre body)) \<noteq> []"
    by (auto simp add: truthy_def trim_Nil split: option.splits)
  from a have p: "truthy (body_plato1 body)"
    by (auto simp add: truthy_def split: option.splits)
  from assms n p show "status (fst (submit admins tz now fs st u body)) \<noteq> 400"
    by (simp add: submit_def Let_def submitDone_def submitError_def split: option.splits)
  from assms n p show "status (fst (submit admins tz now fs st u body)) \<noteq> 403"
    by (simp add: submit_def Let_def submitDone_def submitError_def split: option.splits)
  assume "writeFault fs = None"
  with assms n p show "status (fst (submit admins tz now fs st u body)) = 200"
    by (simp add: submit_def Let_def submitDone_def split: option.splits)
  from assms n p \<open>writeFault fs = None\<close>
  show "success (fst (submit admins tz now fs st u body))"
    by (simp add: submit_def Let_def submitDone_def split: option.splits)
qed

text \<open>
  C8. When the query of the statistics fails, the handler does not fail: it answers
  with the failure flag, a message that carries the error's text, and the aggregate of
  zero orders, no dish counts and no people.
\<close>

theorem getStats_store_failure:
  "getStats tz now (Some m) st =
     \<lparr>status = 500, success = False,
      message = Some (js ''Error al obtener estad'' @ [0xED] @ js ''sticas: '' @ m),
      payload = Some \<lparr>totalOrders = 0, menuStats = Map.empty, peopleList = []\<rparr>\<rparr>"
  by (simp add: getStats_def Let_def)

text \<open>
  C9. Within the access window and with a store that answers, cancelling when the table
  has no row of the identity in the current cycle succeeds and leaves the table as it
  was; and in any case a second cancellation right after a first one succeeds and
  changes nothing more.
\<close>

theorem cancel_absent_record:
  assumes "allowed (checkTimeRestriction admins tz now u)"
  shows "((\<forall>p \<in> set (rows st).
             \<not> (email p = u \<and> fecha p = getCycleDate tz (getArgTime tz now)))
          \<longrightarrow> cancel admins tz now None st u =
                (\<lparr>status = 200, success = True,
                  message = Some (js ''Pedido cancelado correctamente''), payload = None\<rparr>, st))
       \<and> cancel admins tz now None (snd (cancel admins tz now None st u)) u =
           (\<lparr>status = 200, success = True,
             message = Some (js ''Pedido cancelado correctamente''), payload = None\<rparr>,
            snd (cancel admins tz now None st u))"
proof (intro conjI impI)
  assume "\<forall>p \<in> set (rows st).
            \<not> (email p = u \<and> fecha p = getCycleDate tz (getArgTime tz now))"
  then have "filter (\<lambda>p. \<not> (email p = u \<and> fecha p = getCycleDate tz (getArgTime tz now)))
               (rows st) = rows st"
    by (simp add: filter_id_conv)
  with assms show "cancel admins tz now None st u =
      (\<lparr>status = 200, success = True,
        message = Some (js ''Pedido cancelado correctamente''), payload = None\<rparr>, st)"
    by (simp add: cancel_def Let_def deleteWhere_def)
next
  from assms show "cancel admins tz now None (snd (cancel admins tz now None st u)) u =
      (\<lparr>status = 200, success = True,
        message = Some (js ''Pedido cancelado correctamente''), payload = None\<rparr>,
       snd (cancel admins tz now None st u))"
    by (simp add: cancel_def Let_def deleteWhere_def)
qed

lemma submit_valid:
  assumes "allowed (checkTimeRestriction admins tz now u)"
    and "truthy (body_nombre body)" and "trim (the (body_nombre body)) \<noteq> []"
    and "truthy (body_plato1 body)"
    and "writeFault fs = None"
  shows "submit admins tz now fs st u body =
     (case existingOrder (selectFault fs) st u (getCycleDate tz (getArgTime tz now)) of
        Some ex \<Rightarrow>
          (submitDone tz now (listFault fs)
             (updateById st (row_id ex) (makeOrderData tz now u body)) u Updated,
           updateById st (row_id ex) (makeOrderData tz now u body))
      | None \<Rightarrow>
          (submitDone tz now (listFault fs)
             (insertRow st (makeOrderData tz now u body)) u Created,
           insertRow st (makeOrderData tz now u body)))"
  using assms by (simp add: submit_def Let_def split: option.splits)

lemma existingOrder_SomeD:
  assumes "existingOrder sf st e c = Some p"
  shows "filter (\<lambda>p. email p = e \<and> fecha p = c) (rows st) = [p]"
  using assms
  by (auto simp add: existingOrder_def selectSingle_def split: option.splits list.splits)

lemma existingOrder_in_rows:
  assumes "existingOrder sf st e c = Some p"
  shows "p \<in> set (rows st)"
proof -
  have "p \<in> set (filter (\<lambda>p. email p = e \<and> fecha p = c) (rows st))"
    by (simp add: existingOrder_SomeD [OF assms])
  then show ?thesis by simp
qed

lemma submitDone_fault:
  "submitDone tz now (Some m) st u act =
     \<lparr>status = 200, success = True,
      message = Some (if act = Updated then js ''Pedido actualizado correctamente''
                      else js ''Pedido registrado correctamente''),
      payload = Some \<lparr>res_action = act, res_dishNumbers = [], res_totalPlatos = 0\<rparr>\<rparr>"
  by (simp add: submitDone_def calculateDishNumbers_def submitMessage_def Let_def)

lemma mkRow_fields:
  "email (mkRow i d) = email d" "fecha (mkRow i d) = fecha d"
  "timestamp (mkRow i d) = timestamp d" "nombre (mkRow i d) = nombre d"
  "plato1 (mkRow i d) = plato1 d" "plato2 (mkRow i d) = plato2 d"
  "plato3 (mkRow i d) = plato3 d" "usuario (mkRow i d) = usuario d"
  "row_id (mkRow i d) = i"
  by (simp_all add: mkRow_def)

lemma mkRow_in_updateById:
  "ex \<in> set (rows st) \<Longrightarrow> mkRow (row_id ex) d \<in> set (rows (updateById st (row_id ex) d))"
  by (force simp add: updateById_def)

lemma mkRow_in_insertRow: "mkRow (nextId st) d \<in> set (rows (insertRow st d))"
  by (simp add: insertRow_def)

text \<open>
  C10. When the write of a valid submission goes through and the query of the numbering
  that follows fails, the answer is still the success answer: the action, an empty list
  of dish numbers, zero as total, and the plain message without numbers; the row has
  been written.
\<close>

theorem submit_numbering_failure_swallowed:
  assumes "allowed (checkTimeRestriction admins tz now u)"
    and "truthy (body_nombre body)" and "trim (the (body_nombre body)) \<noteq> []"
    and "truthy (body_plato1 body)"
    and "writeFault fs = None" and "listFault fs = Some m"
  shows "(\<exists>act. fst (submit admins tz now fs st u body) =
            \<lparr>status = 200, success = True,
             message = Some (if act = Updated then js ''Pedido actualizado correctamente''
                             else js ''Pedido registrado correctamente''),
             payload = Some \<lparr>res_action = act, res_dishNumbers = [], res_totalPlatos = 0\<rparr>\<rparr>)
       \<and> (\<exists>p \<in> set (rows (snd (submit admins tz now fs st u body))).
             email p = u \<and> fecha p = getCycleDate tz (getArgTime tz now)
             \<and> timestamp p = getArgTime tz now
             \<and> nombre p = trim (the (body_nombre body))
             \<and> plato1 p = body_plato1 body)"
proof -
  let ?c = "getCycleDate tz (getArgTime tz now)"
  let ?d = "makeOrderData tz now u body"
  note v = submit_valid [OF assms(1-5), of st]
  from assms(4) have p1: "Some (orEmpty (body_plato1 body)) = body_plato1 body"
    by (auto simp add: orEmpty_def truthy_def split: option.splits)
  have row: "email (mkRow i ?d) = u \<and> fecha (mkRow i ?d) = ?c
             \<and> timestamp (mkRow i ?d) = getArgTime tz now
             \<and> nombre (mkRow i ?d) = trim (the (body_nombre body))
             \<and> plato1 (mkRow i ?d) = body_plato1 body" for i
    by (simp add: mkRow_fields makeOrderData_def p1)
  show ?thesis
  proof (cases "existingOrder (selectFault fs) st u ?c")
    case None
    with v assms(6) have
      s: "submit admins tz now fs st u body =
            (submitDone tz now (Some m) (insertRow st ?d) u Created, insertRow st ?d)"
      by simp
    have "mkRow (nextId st) ?d \<in> set (rows (snd (submit admins tz now fs st u body)))"
      by (simp add: s mkRow_in_insertRow)
    with row [of "nextId st"] s show ?thesis
      by (auto simp add: submitDone_fault intro!: exI [where x = Created])
  next
    case (Some ex)
    with v assms(6) have
      s: "submit admins tz now fs st u body =
            (submitDone tz now (Some m) (updateById st (row_id ex) ?d) u Updated,
             updateById st (row_id ex) ?d)"
      by simp
    from Some have "ex \<in> set (rows st)"
      by (rule existingOrder_in_rows)
    then have "mkRow (row_id ex) ?d \<in> set (rows (snd (submit admins tz now fs st u body)))"
      by (simp add: s mkRow_in_updateById)
    with row [of "row_id ex"] s show ?thesis
      by (auto simp add: submitDone_fault intro!: exI [where x = Updated])
  qed
qed

text \<open>
  Monday 2024-01-15 at 14:05 on an empty table: a name of spaces, an empty first dish,
  and a first dish that is not on the menu with no second or third dish.
\<close>

theorem submit_validation_witness:
  "allowed (checkTimeRestriction (ADMIN_EMAILS None) 0 1705338300000 (js ''ana@x.com''))
   \<and> submit (ADMIN_EMAILS None) 0 1705338300000 noFaults emptyStore (js ''ana@x.com'')
         (exBody ''   '' ''Tortilla de papa'' '''' '''')
       = (\<lparr>status = 400, success = False,
           message = Some (js ''Por favor ingresa tu nombre''), payload = None\<rparr>, emptyStore)
   \<and> submit (ADMIN_EMAILS None) 0 1705338300000 noFaults emptyStore (js ''ana@x.com'')
         (exBody ''Ana'' '''' ''Tortilla de papa'' '''')
       = (\<lparr>status = 400, success = False,
           message = Some (js ''Por favor selecciona al menos el plato principal''),
           payload = None\<rparr>, emptyStore)
   \<and> js ''Pizza'' \<notin> set MENU_ITEMS
   \<and> status (fst (submit (ADMIN_EMAILS None) 0 1705338300000 noFaults emptyStore
                     (js ''ana@x.com'')
                     \<lparr>body_nombre = Some (js ''Ana''), body_plato1 = Some (js ''Pizza''),
                      body_plato2 = None, body_plato3 = None\<rparr>)) = 200
   \<and> success (fst (submit (ADMIN_EMAILS None) 0 1705338300000 noFaults emptyStore
                      (js ''ana@x.com'')
                      \<lparr>body_nombre = Some (js ''Ana''), body_plato1 = Some (js ''Pizza''),
                       body_plato2 = None, body_plato3 = None\<rparr>))"
proof -
  let ?pizza = "\<lparr>body_nombre = Some (js ''Ana''), body_plato1 = Some (js ''Pizza''),
                 body_plato2 = None, body_plato3 = None\<rparr>"
  have h: "allowed (checkTimeRestriction (ADMIN_EMAILS None) 0 1705338300000 (js ''ana@x.com''))"
    by code_simp
  have a: "case body_nombre (exBody ''   '' ''Tortilla de papa'' '''' '''') of
             None \<Rightarrow> True | Some s \<Rightarrow> trim s = []"
    by code_simp
  have b: "(case body_nombre (exBody ''Ana'' '''' ''Tortilla de papa'' '''') of
              None \<Rightarrow> False | Some s \<Rightarrow> trim s \<noteq> [])
           \<and> (body_plato1 (exBody ''Ana'' '''' ''Tortilla de papa'' '''') = None
               \<or> body_plato1 (exBody ''Ana'' '''' ''Tortilla de papa'' '''') = Some [])"
    by code_simp
  have c: "(case body_nombre ?pizza of None \<Rightarrow> False | Some s \<Rightarrow> trim s \<noteq> [])
           \<and> (case body_plato1 ?pizza of None \<Rightarrow> False | Some p \<Rightarrow> p \<noteq> [])"
    by code_simp
  have m: "js ''Pizza'' \<notin> set MENU_ITEMS"
    by code_simp
  have w: "writeFault noFaults = None"
    by (simp add: noFaults_def)
  from a submit_validation [OF h, where body = "exBody ''   '' ''Tortilla de papa'' '''' ''''"
      and fs = noFaults and st = emptyStore]
  have ra: "submit (ADMIN_EMAILS None) 0 1705338300000 noFaults emptyStore (js ''ana@x.com'')
              (exBody ''   '' ''Tortilla de papa'' '''' '''')
            = (\<lparr>status = 400, success = False,
                message = Some (js ''Por favor ingresa tu nombre''), payload = None\<rparr>, emptyStore)"
    by blast
  from b submit_validation [OF h, where body = "exBody ''Ana'' '''' ''Tortilla de papa'' ''''"
      and fs = noFaults and st = emptyStore]
  have rb: "submit (ADMIN_EMAILS None) 0 1705338300000 noFaults emptyStore (js ''ana@x.com'')
              (exBody ''Ana'' '''' ''Tortilla de papa'' '''')
            = (\<lparr>status = 400, success = False,
                message = Some (js ''Por favor selecciona al menos el plato principal''),
                payload = None\<rparr>, emptyStore)"
    by blast
  from c w submit_validation [OF h, where body = ?pizza and fs = noFaults and st = emptyStore]
  have rc: "status (fst (submit (ADMIN_EMAILS None) 0 1705338300000 noFaults emptyStore
                           (js ''ana@x.com'') ?pizza)) = 200
            \<and> success (fst (submit (ADMIN_EMAILS None) 0 1705338300000 noFaults emptyStore
                              (js ''ana@x.com'') ?pizza))"
    by blast
  from h ra rb m rc show ?thesis
    by blast
qed

text \<open>The failure answer on a table that holds an order of the cycle.\<close>

theorem getStats_store_failure_witness:
  "getStats 0 1705338300000 (Some (js ''timeout''))
     \<lparr>rows = [exRow 1 ''b@x.com'' ''Tarta - pollo'' '''' '''' 10], nextId = 2\<rparr> =
     \<lparr>status = 500, success = False,
      message = Some (js ''Error al obtener estad'' @ [0xED] @ js ''sticas: '' @ js ''timeout''),
      payload = Some \<lparr>totalOrders = 0, menuStats = Map.empty, peopleList = []\<rparr>\<rparr>"
  by (rule getStats_store_failure)

text \<open>Monday 14:05: the table holds an order of another identity only.\<close>

theorem cancel_absent_record_witness:
  "allowed (checkTimeRestriction (ADMIN_EMAILS None) 0 1705338300000 (js ''ana@x.com''))
   \<and> filter (\<lambda>p. email p = js ''ana@x.com''
                     \<and> fecha p = getCycleDate 0 (getArgTime 0 1705338300000))
        (rows \<lparr>rows = [exRow 1 ''b@x.com'' ''Tarta - pollo'' '''' '''' 10], nextId = 2\<rparr>)
       = []
   \<and> cancel (ADMIN_EMAILS None) 0 1705338300000 None
        \<lparr>rows = [exRow 1 ''b@x.com'' ''Tarta - pollo'' '''' '''' 10], nextId = 2\<rparr>
        (js ''ana@x.com'')
       = (\<lparr>status = 200, success = True,
           message = Some (js ''Pedido cancelado correctamente''), payload = None\<rparr>,
          \<lparr>rows = [exRow 1 ''b@x.com'' ''Tarta - pollo'' '''' '''' 10], nextId = 2\<rparr>)"
proof -
  let ?st = "\<lparr>rows = [exRow 1 ''b@x.com'' ''Tarta - pollo'' '''' '''' 10], nextId = 2\<rparr>"
  have h: "allowed (checkTimeRestriction (ADMIN_EMAILS None) 0 1705338300000 (js ''ana@x.com''))"
    by code_simp
  have e: "filter (\<lambda>p. email p = js ''ana@x.com''
                        \<and> fecha p = getCycleDate 0 (getArgTime 0 1705338300000))
             (rows ?st) = []"
    by code_simp
  then have n: "\<forall>p \<in> set (rows ?st).
                  \<not> (email p = js ''ana@x.com''
                     \<and> fecha p = getCycleDate 0 (getArgTime 0 1705338300000))"
    by (simp only: filter_empty_conv)
  from h e n cancel_absent_record [OF h, of ?st] show ?thesis
    by blast
qed

text \<open>A first order on Monday 14:05 whose numbering query times out.\<close>

theorem submit_numbering_failure_swallowed_witness:
  "allowed (checkTimeRestriction (ADMIN_EMAILS None) 0 1705338300000 (js ''ana@x.com''))
   \<and> truthy (body_nombre (exBody ''Ana'' ''Tortilla de papa'' '''' ''Pastel de papa''))
   \<and> trim (the (body_nombre (exBody ''Ana'' ''Tortilla de papa'' '''' ''Pastel de papa''))) \<noteq> []
   \<and> truthy (body_plato1 (exBody ''Ana'' ''Tortilla de papa'' '''' ''Pastel de papa''))
   \<and> fst (submit (ADMIN_EMAILS None) 0 1705338300000
             \<lparr>selectFault = None, writeFault = None, listFault = Some (js ''timeout'')\<rparr>
             emptyStore (js ''ana@x.com'')
             (exBody ''Ana'' ''Tortilla de papa'' '''' ''Pastel de papa''))
       = \<lparr>status = 200, success = True,
          message = Some (js ''Pedido registrado correctamente''),
          payload = Some \<lparr>res_action = Created, res_dishNumbers = [], res_totalPlatos = 0\<rparr>\<rparr>"
proof -
  let ?b = "exBody ''Ana'' ''Tortilla de papa'' '''' ''Pastel de papa''"
  let ?fs = "\<lparr>selectFault = None, writeFault = None, listFault = Some (js ''timeout'')\<rparr>"
  have h1: "allowed (checkTimeRestriction (ADMIN_EMAILS None) 0 1705338300000 (js ''ana@x.com''))"
    by code_simp
  have h2: "truthy (body_nombre ?b)" by code_simp
  have h3: "trim (the (body_nombre ?b)) \<noteq> []" by code_simp
  have h4: "truthy (body_plato1 ?b)" by code_simp
  have h5: "writeFault ?fs = None" by simp
  have h6: "listFault ?fs = Some (js ''timeout'')" by simp
  have a: "res_action (the (payload (fst (submit (ADMIN_EMAILS None) 0 1705338300000 ?fs
             emptyStore (js ''ana@x.com'') ?b)))) = Created"
    by code_simp
  from submit_numbering_failure_swallowed [OF h1 h2 h3 h4 h5 h6, of emptyStore]
  obtain act where
    r: "fst (submit (ADMIN_EMAILS None) 0 1705338300000 ?fs emptyStore (js ''ana@x.com'') ?b) =
          \<lparr>status = 200, success = True,
           message = Some (if act = Updated then js ''Pedido actualizado correctamente''
                           else js ''Pedido registrado correctamente''),
           payload = Some \<lparr>res_action = act, res_dishNumbers = [], res_totalPlatos = 0\<rparr>\<rparr>"
    by blast
  from a r have "act = Created" by simp
  with r h1 h2 h3 h4 show ?thesis by simp
qed

section \<open>Properties of repeated submissions\<close>

lemma existingOrder_ordersOf:
  "existingOrder None st e c = (case ordersOf st e c of [p] \<Rightarrow> Some p | _ \<Rightarrow> None)"
  by (simp add: existingOrder_def selectSingle_def ordersOf_def)

lemma makeOrderData_fields:
  "email (makeOrderData tz now u body) = u"
  "fecha (makeOrderData tz now u body) = getCycleDate tz (getArgTime tz now)"
  "timestamp (makeOrderData tz now u body) = getArgTime tz now"
  by (simp_all add: makeOrderData_def)

lemma filter_update_by_id:
  assumes "distinct (map row_id rs)" and "filter M rs = [ex]" and "M new"
  shows "filter M (map (\<lambda>p. if row_id p = row_id ex then new else p) rs) = [new]"
  using assms
proof (induction rs)
  case Nil
  then show ?case by simp
next
  case (Cons x xs)
  show ?case
  proof (cases "M x")
    case True
    with Cons.prems have x: "x = ex" and none: "filter M xs = []"
      by simp_all
    from Cons.prems(1) x have "\<forall>p \<in> set xs. row_id p \<noteq> row_id ex"
      by (metis distinct.simps(2) image_eqI list.simps(9) set_map)
    then have "map (\<lambda>p. if row_id p = row_id ex then new else p) xs = xs"
      by (simp add: map_idI)
    with x none Cons.prems(3) show ?thesis
      by simp
  next
    case False
    with Cons.prems have f: "filter M xs = [ex]"
      by simp
    then have "ex \<in> set (filter M xs)"
      by simp
    then have "ex \<in> set xs"
      by simp
    with Cons.prems(1) have "row_id x \<noteq> row_id ex"
      by (metis distinct.simps(2) image_eqI list.simps(9) set_map)
    moreover from Cons.prems(1) have "distinct (map row_id xs)"
      by simp
    ultimately show ?thesis
      using False f Cons.IH Cons.prems(3) by simp
  qed
qed

lemma storeOk_insertRow: "storeOk st \<Longrightarrow> storeOk (insertRow st d)"
  by (auto simp add: storeOk_def insertRow_def mkRow_fields list_all_iff less_Suc_eq)

lemma storeOk_updateById:
  assumes "storeOk st"
  shows "storeOk (updateById st i d)"
proof -
  have ids: "map row_id (rows (updateById st i d)) = map row_id (rows st)"
    by (simp add: updateById_def mkRow_fields)
  have "list_all (\<lambda>p. row_id p < nextId st) (rows (updateById st i d))"
    using assms by (auto simp add: storeOk_def updateById_def list_all_iff mkRow_fields)
  moreover have "nextId (updateById st i d) = nextId st"
    by (simp add: updateById_def)
  ultimately show ?thesis
    using assms ids by (simp add: storeOk_def)
qed

text \<open>One valid submission on a table that holds at most one order of the identity in
  the cycle.\<close>

lemma submit_once:
  assumes al: "allowed (checkTimeRestriction admins tz now u)"
    and v1: "truthy (body_nombre body)" and v2: "trim (the (body_nombre body)) \<noteq> []"
    and v3: "truthy (body_plato1 body)"
    and sf: "selectFault fs = None" and wf: "writeFault fs = None"
    and ok: "storeOk st"
    and le: "length (ordersOf st u (getCycleDate tz (getArgTime tz now))) \<le> 1"
  shows "\<exists>i act. submit admins tz now fs st u body =
                   (submitDone tz now (listFault fs)
                      (snd (submit admins tz now fs st u body)) u act,
                    snd (submit admins tz now fs st u body))
          \<and> (act = Updated) = (ordersOf st u (getCycleDate tz (getArgTime tz now)) \<noteq> [])
          \<and> ordersOf (snd (submit admins tz now fs st u body)) u
               (getCycleDate tz (getArgTime tz now))
             = [mkRow i (makeOrderData tz now u body)]
          \<and> (ordersOf st u (getCycleDate tz (getArgTime tz now)) = []
               \<longrightarrow> i = nextId st
                   \<and> rows (snd (submit admins tz now fs st u body)) =
                       rows st @ [mkRow i (makeOrderData tz now u body)])
          \<and> (ordersOf st u (getCycleDate tz (getArgTime tz now)) \<noteq> []
               \<longrightarrow> i = row_id (hd (ordersOf st u (getCycleDate tz (getArgTime tz now))))
                   \<and> rows (snd (submit admins tz now fs st u body)) =
                     map (\<lambda>p. if row_id p = i then mkRow i (makeOrderData tz now u body)
                               else p) (rows st))
          \<and> storeOk (snd (submit admins tz now fs st u body))"
proof -
  let ?c = "getCycleDate tz (getArgTime tz now)"
  let ?d = "makeOrderData tz now u body"
  note v = submit_valid [OF al v1 v2 v3 wf, of st]
  have m: "email (mkRow i ?d) = u \<and> fecha (mkRow i ?d) = ?c" for i
    by (simp add: mkRow_fields makeOrderData_fields)
  show ?thesis
  proof (cases "ordersOf st u ?c")
    case Nil
    then have e: "existingOrder (selectFault fs) st u ?c = None"
      by (simp add: sf existingOrder_ordersOf)
    with v have s: "submit admins tz now fs st u body =
        (submitDone tz now (listFault fs) (insertRow st ?d) u Created, insertRow st ?d)"
      by simp
    have "ordersOf (insertRow st ?d) u ?c = [mkRow (nextId st) ?d]"
      using Nil m [of "nextId st"] by (simp add: ordersOf_def insertRow_def)
    moreover have "rows (insertRow st ?d) = rows st @ [mkRow (nextId st) ?d]"
      by (simp add: insertRow_def)
    ultimately show ?thesis
      using s Nil storeOk_insertRow [OF ok, of ?d] by auto
  next
    case (Cons ex rest)
    with le have one: "ordersOf st u ?c = [ex]"
      by simp
    then have e: "existingOrder (selectFault fs) st u ?c = Some ex"
      by (simp add: sf existingOrder_ordersOf)
    with v have s: "submit admins tz now fs st u body =
        (submitDone tz now (listFault fs) (updateById st (row_id ex) ?d) u Updated,
         updateById st (row_id ex) ?d)"
      by simp
    from ok have "distinct (map row_id (rows st))"
      by (simp add: storeOk_def)
    with one m [of "row_id ex"]
    have "ordersOf (updateById st (row_id ex) ?d) u ?c = [mkRow (row_id ex) ?d]"
      unfolding ordersOf_def updateById_def
      by (simp add: filter_update_by_id)
    moreover have "rows (updateById st (row_id ex) ?d) =
        map (\<lambda>p. if row_id p = row_id ex then mkRow (row_id ex) ?d else p) (rows st)"
      by (simp add: updateById_def)
    ultimately show ?thesis
      using s one storeOk_updateById [OF ok, of "row_id ex" ?d] by auto
  qed
qed


lemma mkRow_new_timestamp:
  assumes "getCycleDate tz (getArgTime tz now1) = getCycleDate tz (getArgTime tz now2)"
  shows "mkRow i (makeOrderData tz now2 u body) =
           (mkRow i (makeOrderData tz now1 u body))\<lparr>timestamp := getArgTime tz now2\<rparr>"
  using assms by (simp add: mkRow_def makeOrderData_def)

lemma only_order:
  assumes "ordersOf st u c = [p]" and "q \<in> set (rows st)"
  shows "(email q = u \<and> fecha q = c) = (q = p)"
proof
  assume "email q = u \<and> fecha q = c"
  with assms(2) have "q \<in> set (ordersOf st u c)"
    by (simp add: ordersOf_def)
  with assms(1) show "q = p"
    by simp
next
  assume "q = p"
  moreover have "p \<in> set (ordersOf st u c)"
    by (simp add: assms(1))
  ultimately show "email q = u \<and> fecha q = c"
    by (simp add: ordersOf_def)
qed

lemma only_key:
  assumes "storeOk st" and "p \<in> set (rows st)" and "q \<in> set (rows st)"
  shows "(row_id q = row_id p) = (q = p)"
proof -
  from assms(1) have "inj_on row_id (set (rows st))"
    by (simp add: storeOk_def distinct_map)
  with assms(2,3) show ?thesis
    by (auto dest: inj_onD)
qed

text \<open>
  C6. Two submissions of the same identity with the same body in the same cycle, both
  within the access window and with a store that answers, on a table with unique keys
  that holds at most one order of the identity in the cycle: the second one is answered
  with the action \<open>updated\<close>; the one order of the identity in the cycle keeps its key
  and every column except the timestamp, which becomes the time of the second call; all
  other rows stay as they were.
\<close>

theorem submit_twice:
  assumes a1: "allowed (checkTimeRestriction admins tz now1 u)"
    and a2: "allowed (checkTimeRestriction admins tz now2 u)"
    and cyc: "getCycleDate tz (getArgTime tz now1) = getCycleDate tz (getArgTime tz now2)"
    and v1: "truthy (body_nombre body)" and v2: "trim (the (body_nombre body)) \<noteq> []"
    and v3: "truthy (body_plato1 body)"
    and f1: "selectFault fs1 = None \<and> writeFault fs1 = None"
    and f2: "selectFault fs2 = None \<and> writeFault fs2 = None"
    and ok: "storeOk st"
    and le: "length (ordersOf st u (getCycleDate tz (getArgTime tz now1))) \<le> 1"
  shows "status (fst (submit admins tz now2 fs2
                        (snd (submit admins tz now1 fs1 st u body)) u body)) = 200
       \<and> map_option res_action
            (payload (fst (submit admins tz now2 fs2
                             (snd (submit admins tz now1 fs1 st u body)) u body)))
           = Some Updated
       \<and> (\<exists>p. ordersOf (snd (submit admins tz now1 fs1 st u body)) u
                 (getCycleDate tz (getArgTime tz now1)) = [p]
              \<and> timestamp p = getArgTime tz now1
              \<and> ordersOf (snd (submit admins tz now2 fs2
                                 (snd (submit admins tz now1 fs1 st u body)) u body)) u
                   (getCycleDate tz (getArgTime tz now1))
                 = [p\<lparr>timestamp := getArgTime tz now2\<rparr>])
       \<and> rows (snd (submit admins tz now2 fs2
                       (snd (submit admins tz now1 fs1 st u body)) u body))
           = map (\<lambda>q. if email q = u \<and> fecha q = getCycleDate tz (getArgTime tz now1)
                       then q\<lparr>timestamp := getArgTime tz now2\<rparr> else q)
               (rows (snd (submit admins tz now1 fs1 st u body)))"
proof -
  let ?c = "getCycleDate tz (getArgTime tz now1)"
  let ?st1 = "snd (submit admins tz now1 fs1 st u body)"
  let ?r2 = "submit admins tz now2 fs2 ?st1 u body"
  let ?d1 = "makeOrderData tz now1 u body"
  let ?d2 = "makeOrderData tz now2 u body"
  from f1 have sf1: "selectFault fs1 = None" and wf1: "writeFault fs1 = None"
    by simp_all
  from f2 have sf2: "selectFault fs2 = None" and wf2: "writeFault fs2 = None"
    by simp_all
  from submit_once [OF a1 v1 v2 v3 sf1 wf1 ok le]
  obtain i where o1: "ordersOf ?st1 u ?c = [mkRow i ?d1]" and ok1: "storeOk ?st1"
    by blast
  let ?p = "mkRow i ?d1"
  from o1 have le1: "length (ordersOf ?st1 u (getCycleDate tz (getArgTime tz now2))) \<le> 1"
    by (simp add: cyc [symmetric])
  from o1 have ne: "ordersOf ?st1 u (getCycleDate tz (getArgTime tz now2)) \<noteq> []"
    by (simp add: cyc [symmetric])
  from submit_once [OF a2 v1 v2 v3 sf2 wf2 ok1 le1] ne
  obtain j where
    r2: "?r2 = (submitDone tz now2 (listFault fs2) (snd ?r2) u Updated, snd ?r2)"
    and o2: "ordersOf (snd ?r2) u ?c = [mkRow j ?d2]"
    and rows2: "rows (snd ?r2) =
                  map (\<lambda>p. if row_id p = j then mkRow j ?d2 else p) (rows ?st1)"
    by (auto simp add: cyc [symmetric])
  have pin: "?p \<in> set (rows ?st1)"
  proof -
    have "?p \<in> set (ordersOf ?st1 u ?c)"
      by (simp add: o1)
    then show ?thesis
      by (simp add: ordersOf_def)
  qed
  have "mkRow j ?d2 \<in> set (ordersOf (snd ?r2) u ?c)"
    by (simp add: o2)
  then have "mkRow j ?d2 \<in> set (rows (snd ?r2))"
    by (simp add: ordersOf_def)
  then obtain q where q: "q \<in> set (rows ?st1)" and qj: "row_id q = j"
    unfolding rows2 by (auto simp add: mkRow_fields split: if_splits)
  have M: "email (mkRow j ?d2) = u \<and> fecha (mkRow j ?d2) = ?c"
    by (simp add: mkRow_fields makeOrderData_fields cyc)
  have ji: "j = i"
  proof (rule ccontr)
    assume n: "j \<noteq> i"
    then have "row_id ?p \<noteq> j"
      by (simp add: mkRow_fields)
    with pin have "?p \<in> set (rows (snd ?r2))"
      unfolding rows2 by force
    moreover have "email ?p = u \<and> fecha ?p = ?c"
      by (simp add: mkRow_fields makeOrderData_fields)
    ultimately have "?p \<in> set (ordersOf (snd ?r2) u ?c)"
      by (simp add: ordersOf_def)
    with o2 have "?p = mkRow j ?d2"
      by simp
    then have "row_id ?p = row_id (mkRow j ?d2)"
      by simp
    with n show False
      by (simp add: mkRow_fields)
  qed
  have new: "mkRow i ?d2 = ?p\<lparr>timestamp := getArgTime tz now2\<rparr>"
    by (rule mkRow_new_timestamp [OF cyc])
  have "rows (snd ?r2) =
          map (\<lambda>q. if email q = u \<and> fecha q = ?c
                    then q\<lparr>timestamp := getArgTime tz now2\<rparr> else q) (rows ?st1)"
    unfolding rows2 ji
  proof (rule map_cong [OF refl])
    fix q assume q: "q \<in> set (rows ?st1)"
    have k: "(row_id q = i) = (q = ?p)"
      using only_key [OF ok1 pin q] by (simp add: mkRow_fields)
    have e: "(email q = u \<and> fecha q = ?c) = (q = ?p)"
      by (rule only_order [OF o1 q])
    show "(if row_id q = i then mkRow i ?d2 else q) =
          (if email q = u \<and> fecha q = ?c
           then q\<lparr>timestamp := getArgTime tz now2\<rparr> else q)"
      unfolding k e by (simp add: new)
  qed
  moreover have "status (fst ?r2) = 200"
    using r2 by (metis (no_types, lifting) fst_conv response.select_convs(1) submitDone_def)
  moreover have "map_option res_action (payload (fst ?r2)) = Some Updated"
  proof -
    have "fst ?r2 = submitDone tz now2 (listFault fs2) (snd ?r2) u Updated"
      using r2 by (metis fst_conv)
    then show ?thesis
      by (simp add: submitDone_def Let_def)
  qed
  moreover have "timestamp ?p = getArgTime tz now1"
    by (simp add: mkRow_fields makeOrderData_fields)
  ultimately show ?thesis
    using o1 o2 by (simp add: ji new)
qed


lemma dishCount_mkRow:
  "dishCount (mkRow i (makeOrderData tz now u body)) = bodyDishCount body"
  by (simp add: dishCount_def dishSlots_def mkRow_fields makeOrderData_def bodyDishCount_def)

lemma submitDone_numbers:
  "map_option res_dishNumbers (payload (submitDone tz now None st u act)) =
     Some (dishNumbers (selectCycle st (getCycleDate tz (getArgTime tz now))) u)"
  by (simp add: submitDone_def calculateDishNumbers_def Let_def)

lemma numbers_AA:
  assumes "email a = A" and "dishCount a = 2"
  shows "dishNumbers [a] A = [1, 2]"
  using assms
  by (simp add: dishNumbers_positions flattenOwners_replicate positionsOf_def
        numeral_eq_Suc upt_rec)

lemma numbers_AAB:
  assumes "email a = A" and "email b = B" and "A \<noteq> B"
    and "dishCount a = 2" and "dishCount b = 1"
  shows "dishNumbers [a, b] B = [3]"
  using assms
  by (simp add: dishNumbers_positions flattenOwners_replicate positionsOf_def
        numeral_eq_Suc upt_rec)

lemma numbers_BAA:
  assumes "email a = A" and "email b = B" and "A \<noteq> B"
    and "dishCount a = 2" and "dishCount b = 1"
  shows "dishNumbers [b, a] A = [2, 3]" and "dishNumbers [b, a] B = [1]"
  using assms
  by (simp_all add: dishNumbers_positions flattenOwners_replicate positionsOf_def
        numeral_eq_Suc upt_rec)

lemma ordersOf_empty_cycle:
  assumes "filter (\<lambda>p. fecha p = c) (rows st) = []"
  shows "ordersOf st e c = []"
  using assms by (auto simp add: ordersOf_def filter_empty_conv)

lemma noFaults_fields:
  "selectFault noFaults = None" "writeFault noFaults = None" "listFault noFaults = None"
  by (simp_all add: noFaults_def)

text \<open>
  C5. On a table with no order of the cycle yet, A submits two dishes and is answered
  with the numbers 1, 2; B submits one dish, not earlier than A, and is answered with 3;
  A then submits two dishes again, at a later second than B: the order of A is updated,
  A is answered with the numbers 2, 3, and the numbering of B is now 1. The table is
  followed through the three calls: the first adds the row of A with the name, the
  dishes and the time of that call, the second adds the row of B behind it, and the
  third leaves both rows in place and replaces, in the row of A, the name and the three
  dishes by those of the new body and the timestamp by the time of the third call; the
  key, the identity and the cycle of the row stay.
\<close>

theorem resubmission_renumbers:
  assumes ab: "A \<noteq> B"
    and al1: "allowed (checkTimeRestriction admins tz now1 A)"
    and al2: "allowed (checkTimeRestriction admins tz now2 B)"
    and al3: "allowed (checkTimeRestriction admins tz now3 A)"
    and c1: "getCycleDate tz (getArgTime tz now1) = c"
    and c2: "getCycleDate tz (getArgTime tz now2) = c"
    and c3: "getCycleDate tz (getArgTime tz now3) = c"
    and t12: "getArgTime tz now1 \<le> getArgTime tz now2"
    and t23: "getArgTime tz now2 < getArgTime tz now3"
    and vA: "truthy (body_nombre bodyA) \<and> trim (the (body_nombre bodyA)) \<noteq> []
             \<and> truthy (body_plato1 bodyA)"
    and vB: "truthy (body_nombre bodyB) \<and> trim (the (body_nombre bodyB)) \<noteq> []
             \<and> truthy (body_plato1 bodyB)"
    and vA2: "truthy (body_nombre bodyA2) \<and> trim (the (body_nombre bodyA2)) \<noteq> []
              \<and> truthy (body_plato1 bodyA2)"
    and nA: "bodyDishCount bodyA = 2" and nB: "bodyDishCount bodyB = 1"
    and nA2: "bodyDishCount bodyA2 = 2"
    and ok: "storeOk st"
    and fresh: "filter (\<lambda>p. fecha p = c) (rows st) = []"
  shows "(let r1 = submit admins tz now1 noFaults st A bodyA;
              r2 = submit admins tz now2 noFaults (snd r1) B bodyB;
              r3 = submit admins tz now3 noFaults (snd r2) A bodyA2
          in map_option res_dishNumbers (payload (fst r1)) = Some [1, 2]
             \<and> map_option res_dishNumbers (payload (fst r2)) = Some [3]
             \<and> map_option res_action (payload (fst r3)) = Some Updated
             \<and> map_option res_dishNumbers (payload (fst r3)) = Some [2, 3]
             \<and> calculateDishNumbers tz now3 None (snd r3) B = [1]
             \<and> (\<exists>p q.
                   rows (snd r1) = rows st @ [p]
                   \<and> rows (snd r2) = rows st @ [p, q]
                   \<and> rows (snd r3) =
                       rows st @
                         [p\<lparr>nombre := trim (the (body_nombre bodyA2)),
                            plato1 := Some (orEmpty (body_plato1 bodyA2)),
                            plato2 := Some (orEmpty (body_plato2 bodyA2)),
                            plato3 := Some (orEmpty (body_plato3 bodyA2)),
                            timestamp := getArgTime tz now3\<rparr>, q]
                   \<and> email p = A \<and> fecha p = c \<and> timestamp p = getArgTime tz now1
                   \<and> nombre p = trim (the (body_nombre bodyA))
                   \<and> plato1 p = Some (orEmpty (body_plato1 bodyA))
                   \<and> plato2 p = Some (orEmpty (body_plato2 bodyA))
                   \<and> plato3 p = Some (orEmpty (body_plato3 bodyA))
                   \<and> email q = B \<and> fecha q = c \<and> timestamp q = getArgTime tz now2
                   \<and> nombre q = trim (the (body_nombre bodyB))
                   \<and> plato1 q = Some (orEmpty (body_plato1 bodyB))
                   \<and> plato2 q = Some (orEmpty (body_plato2 bodyB))
                   \<and> plato3 q = Some (orEmpty (body_plato3 bodyB))))"
proof -
  let ?r1 = "submit admins tz now1 noFaults st A bodyA"
  let ?st1 = "snd ?r1"
  let ?r2 = "submit admins tz now2 noFaults ?st1 B bodyB"
  let ?st2 = "snd ?r2"
  let ?r3 = "submit admins tz now3 noFaults ?st2 A bodyA2"
  let ?st3 = "snd ?r3"
  let ?dA = "makeOrderData tz now1 A bodyA"
  let ?dB = "makeOrderData tz now2 B bodyB"
  let ?dA2 = "makeOrderData tz now3 A bodyA2"
  note sf = noFaults_fields(1) and wf = noFaults_fields(2)
  have fld: "email (mkRow i (makeOrderData tz now u body)) = u
             \<and> timestamp (mkRow i (makeOrderData tz now u body)) = getArgTime tz now
             \<and> fecha (mkRow i (makeOrderData tz now u body))
                 = getCycleDate tz (getArgTime tz now)" for i now u body
    by (simp add: mkRow_fields makeOrderData_fields)

  have e1: "ordersOf st A c = []"
    by (rule ordersOf_empty_cycle [OF fresh])
  then have le1: "length (ordersOf st A (getCycleDate tz (getArgTime tz now1))) \<le> 1"
    by (simp add: c1)
  from submit_once [OF al1 vA [THEN conjunct1] vA [THEN conjunct2, THEN conjunct1]
      vA [THEN conjunct2, THEN conjunct2] sf wf ok le1] e1
  obtain i1 act1 where
    r1: "?r1 = (submitDone tz now1 None ?st1 A act1, ?st1)"
    and rows1: "rows ?st1 = rows st @ [mkRow i1 ?dA]"
    and ok1: "storeOk ?st1"
    by (auto simp add: c1 noFaults_fields)
  let ?a = "mkRow i1 ?dA"
  have a: "email ?a = A \<and> timestamp ?a = getArgTime tz now1 \<and> fecha ?a = c
           \<and> dishCount ?a = 2 \<and> row_id ?a = i1"
    using fld [of i1 now1 A bodyA] by (simp add: c1 dishCount_mkRow nA mkRow_fields)
  have sel1: "selectCycle ?st1 c = [?a]"
    using a by (simp add: selectCycle_def rows1 fresh)
  have n1: "map_option res_dishNumbers (payload (fst ?r1)) = Some [1, 2]"
  proof -
    have "fst ?r1 = submitDone tz now1 None ?st1 A act1"
      using r1 by (metis fst_conv)
    then show ?thesis
      using a by (simp add: submitDone_numbers c1 sel1 numbers_AA)
  qed

  have e2: "ordersOf ?st1 B c = []"
    using a ab ordersOf_empty_cycle [OF fresh, of B]
    by (simp add: ordersOf_def rows1)
  then have le2: "length (ordersOf ?st1 B (getCycleDate tz (getArgTime tz now2))) \<le> 1"
    by (simp add: c2)
  from submit_once [OF al2 vB [THEN conjunct1] vB [THEN conjunct2, THEN conjunct1]
      vB [THEN conjunct2, THEN conjunct2] sf wf ok1 le2] e2
  obtain i2 act2 where
    r2: "?r2 = (submitDone tz now2 None ?st2 B act2, ?st2)"
    and rows2: "rows ?st2 = rows ?st1 @ [mkRow i2 ?dB]"
    and ok2: "storeOk ?st2"
    by (auto simp add: c2 noFaults_fields)
  let ?b = "mkRow i2 ?dB"
  have b: "email ?b = B \<and> timestamp ?b = getArgTime tz now2 \<and> fecha ?b = c
           \<and> dishCount ?b = 1 \<and> row_id ?b = i2"
    using fld [of i2 now2 B bodyB] by (simp add: c2 dishCount_mkRow nB mkRow_fields)
  have rows2': "rows ?st2 = rows st @ [?a, ?b]"
    by (simp add: rows2 rows1)
  have sel2: "selectCycle ?st2 c = [?a, ?b]"
    using a b t12 by (simp add: selectCycle_def rows2' fresh)
  have n2: "map_option res_dishNumbers (payload (fst ?r2)) = Some [3]"
  proof -
    have "fst ?r2 = submitDone tz now2 None ?st2 B act2"
      using r2 by (metis fst_conv)
    then show ?thesis
      using a b ab by (simp add: submitDone_numbers c2 sel2 numbers_AAB [where A = A])
  qed

  have e3: "ordersOf ?st2 A c = [?a]"
    using a b ab ordersOf_empty_cycle [OF fresh, of A]
    by (simp add: ordersOf_def rows2')
  then have le3: "length (ordersOf ?st2 A (getCycleDate tz (getArgTime tz now3))) \<le> 1"
    by (simp add: c3)
  from submit_once [OF al3 vA2 [THEN conjunct1] vA2 [THEN conjunct2, THEN conjunct1]
      vA2 [THEN conjunct2, THEN conjunct2] sf wf ok2 le3] e3
  obtain act3 where
    r3: "?r3 = (submitDone tz now3 None ?st3 A act3, ?st3)"
    and act3: "act3 = Updated"
    and rows3: "rows ?st3 =
                  map (\<lambda>p. if row_id p = i1 then mkRow i1 ?dA2 else p) (rows ?st2)"
    using a by (auto simp add: c3 noFaults_fields)
  let ?a2 = "mkRow i1 ?dA2"
  have a2: "email ?a2 = A \<and> timestamp ?a2 = getArgTime tz now3 \<and> fecha ?a2 = c
            \<and> dishCount ?a2 = 2"
    using fld [of i1 now3 A bodyA2] by (simp add: c3 dishCount_mkRow nA2)
  from ok2 have d: "distinct (map row_id (rows st) @ [i1, i2])"
    using a b by (simp add: storeOk_def rows2')
  then have old: "\<forall>p \<in> set (rows st). row_id p \<noteq> i1" and ne: "i2 \<noteq> i1"
    by auto
  from old have keep: "map (\<lambda>p. if row_id p = i1 then ?a2 else p) (rows st) = rows st"
    by (simp add: map_idI)
  have rows3': "rows ?st3 = rows st @ [?a2, ?b]"
    using a b ne by (simp add: rows3 rows2' keep)
  have sel3: "selectCycle ?st3 c = [?b, ?a2]"
    using a2 b t23 by (simp add: selectCycle_def rows3' fresh)
  have f3: "fst ?r3 = submitDone tz now3 None ?st3 A Updated"
    using r3 act3 by (metis fst_conv)
  have n3: "map_option res_dishNumbers (payload (fst ?r3)) = Some [2, 3]"
    using a2 b ab by (simp add: f3 submitDone_numbers c3 sel3 numbers_BAA(1) [where B = B])
  have u3: "map_option res_action (payload (fst ?r3)) = Some Updated"
    by (simp add: f3 submitDone_def Let_def)
  have n4: "calculateDishNumbers tz now3 None ?st3 B = [1]"
    using a2 b ab
    by (simp add: calculateDishNumbers_def Let_def c3 sel3 numbers_BAA(2) [where A = A])
  have new: "?a2 = ?a\<lparr>nombre := trim (the (body_nombre bodyA2)),
                       plato1 := Some (orEmpty (body_plato1 bodyA2)),
                       plato2 := Some (orEmpty (body_plato2 bodyA2)),
                       plato3 := Some (orEmpty (body_plato3 bodyA2)),
                       timestamp := getArgTime tz now3\<rparr>"
    by (simp add: mkRow_def makeOrderData_def c1 c3)
  have pa: "nombre ?a = trim (the (body_nombre bodyA))
            \<and> plato1 ?a = Some (orEmpty (body_plato1 bodyA))
            \<and> plato2 ?a = Some (orEmpty (body_plato2 bodyA))
            \<and> plato3 ?a = Some (orEmpty (body_plato3 bodyA))"
    by (simp add: mkRow_def makeOrderData_def)
  have pb: "nombre ?b = trim (the (body_nombre bodyB))
            \<and> plato1 ?b = Some (orEmpty (body_plato1 bodyB))
            \<and> plato2 ?b = Some (orEmpty (body_plato2 bodyB))
            \<and> plato3 ?b = Some (orEmpty (body_plato3 bodyB))"
    by (simp add: mkRow_def makeOrderData_def)
  have rows3n: "rows ?st3 =
      rows st @
        [?a\<lparr>nombre := trim (the (body_nombre bodyA2)),
            plato1 := Some (orEmpty (body_plato1 bodyA2)),
            plato2 := Some (orEmpty (body_plato2 bodyA2)),
            plato3 := Some (orEmpty (body_plato3 bodyA2)),
            timestamp := getArgTime tz now3\<rparr>, ?b]"
    using rows3' new by simp
  have tbl: "\<exists>p q.
      rows ?st1 = rows st @ [p]
      \<and> rows ?st2 = rows st @ [p, q]
      \<and> rows ?st3 =
          rows st @
            [p\<lparr>nombre := trim (the (body_nombre bodyA2)),
               plato1 := Some (orEmpty (body_plato1 bodyA2)),
               plato2 := Some (orEmpty (body_plato2 bodyA2)),
               plato3 := Some (orEmpty (body_plato3 bodyA2)),
               timestamp := getArgTime tz now3\<rparr>, q]
      \<and> email p = A \<and> fecha p = c \<and> timestamp p = getArgTime tz now1
      \<and> nombre p = trim (the (body_nombre bodyA))
      \<and> plato1 p = Some (orEmpty (body_plato1 bodyA))
      \<and> plato2 p = Some (orEmpty (body_plato2 bodyA))
      \<and> plato3 p = Some (orEmpty (body_plato3 bodyA))
      \<and> email q = B \<and> fecha q = c \<and> timestamp q = getArgTime tz now2
      \<and> nombre q = trim (the (body_nombre bodyB))
      \<and> plato1 q = Some (orEmpty (body_plato1 bodyB))
      \<and> plato2 q = Some (orEmpty (body_plato2 bodyB))
      \<and> plato3 q = Some (orEmpty (body_plato3 bodyB))"
    apply (rule exI [where x = ?a])
    apply (rule exI [where x = ?b])
    apply (intro conjI)
    apply (rule rows1)
    apply (rule rows2')
    apply (rule rows3n)
    apply (simp_all only: a b pa pb)
    done
  from n1 n2 u3 n3 n4 tbl show ?thesis
    unfolding Let_def by (intro conjI)
qed

text \<open>Monday 2024-01-15 at 14:05 and again at 14:06, on an empty table.\<close>

theorem submit_twice_witness:
  "allowed (checkTimeRestriction (ADMIN_EMAILS None) 0 1705338300000 (js ''ana@x.com''))
   \<and> allowed (checkTimeRestriction (ADMIN_EMAILS None) 0 1705338360000 (js ''ana@x.com''))
   \<and> getCycleDate 0 (getArgTime 0 1705338300000) = getCycleDate 0 (getArgTime 0 1705338360000)
   \<and> storeOk emptyStore
   \<and> length (ordersOf emptyStore (js ''ana@x.com'')
                (getCycleDate 0 (getArgTime 0 1705338300000))) \<le> 1
   \<and> map_option res_action
        (payload (fst (submit (ADMIN_EMAILS None) 0 1705338360000 noFaults
           (snd (submit (ADMIN_EMAILS None) 0 1705338300000 noFaults emptyStore
                   (js ''ana@x.com'')
                   (exBody ''Ana'' ''Tortilla de papa'' '''' ''Pastel de papa'')))
           (js ''ana@x.com'') (exBody ''Ana'' ''Tortilla de papa'' '''' ''Pastel de papa''))))
       = Some Updated
   \<and> rows (snd (submit (ADMIN_EMAILS None) 0 1705338360000 noFaults
           (snd (submit (ADMIN_EMAILS None) 0 1705338300000 noFaults emptyStore
                   (js ''ana@x.com'')
                   (exBody ''Ana'' ''Tortilla de papa'' '''' ''Pastel de papa'')))
           (js ''ana@x.com'') (exBody ''Ana'' ''Tortilla de papa'' '''' ''Pastel de papa'')))
       = map (\<lambda>q. if email q = js ''ana@x.com''
                      \<and> fecha q = getCycleDate 0 (getArgTime 0 1705338300000)
                   then q\<lparr>timestamp := getArgTime 0 1705338360000\<rparr> else q)
           (rows (snd (submit (ADMIN_EMAILS None) 0 1705338300000 noFaults emptyStore
                         (js ''ana@x.com'')
                         (exBody ''Ana'' ''Tortilla de papa'' '''' ''Pastel de papa''))))"
proof -
  let ?b = "exBody ''Ana'' ''Tortilla de papa'' '''' ''Pastel de papa''"
  have a1: "allowed (checkTimeRestriction (ADMIN_EMAILS None) 0 1705338300000 (js ''ana@x.com''))"
    by code_simp
  have a2: "allowed (checkTimeRestriction (ADMIN_EMAILS None) 0 1705338360000 (js ''ana@x.com''))"
    by code_simp
  have cyc: "getCycleDate 0 (getArgTime 0 1705338300000)
             = getCycleDate 0 (getArgTime 0 1705338360000)"
    by code_simp
  have v1: "truthy (body_nombre ?b)" by code_simp
  have v2: "trim (the (body_nombre ?b)) \<noteq> []" by code_simp
  have v3: "truthy (body_plato1 ?b)" by code_simp
  have f: "selectFault noFaults = None \<and> writeFault noFaults = None"
    by (simp add: noFaults_def)
  have ok: "storeOk emptyStore" by code_simp
  have le: "length (ordersOf emptyStore (js ''ana@x.com'')
                      (getCycleDate 0 (getArgTime 0 1705338300000))) \<le> 1"
    by code_simp
  from a1 a2 cyc ok le submit_twice [OF a1 a2 cyc v1 v2 v3 f f ok le]
  show ?thesis by blast
qed

text \<open>
  Monday 2024-01-15: Ana at 14:05, Bob at 14:06, Ana again at 14:07 with other dishes.
  The row of Ana keeps the key 1; its dishes and its timestamp are those of 14:05 after
  the first call and those of 14:07 after the third.
\<close>

theorem resubmission_renumbers_witness:
  "js ''ana@x.com'' \<noteq> js ''bob@x.com''
   \<and> getArgTime 0 1705338300000 \<le> getArgTime 0 1705338360000
   \<and> getArgTime 0 1705338360000 < getArgTime 0 1705338420000
   \<and> (let r1 = submit (ADMIN_EMAILS None) 0 1705338300000 noFaults emptyStore
                  (js ''ana@x.com'') (exBody ''Ana'' ''Tortilla de papa'' '''' ''Pastel de papa'');
           r2 = submit (ADMIN_EMAILS None) 0 1705338360000 noFaults (snd r1)
                  (js ''bob@x.com'') (exBody ''Bob'' ''Tarta - pollo'' '''' '''');
           r3 = submit (ADMIN_EMAILS None) 0 1705338420000 noFaults (snd r2)
                  (js ''ana@x.com'') (exBody ''Ana'' ''Ensalada Completa'' ''Tarta - pollo'' '''')
       in map_option res_dishNumbers (payload (fst r1)) = Some [1, 2]
          \<and> map_option res_dishNumbers (payload (fst r2)) = Some [3]
          \<and> map_option res_action (payload (fst r3)) = Some Updated
          \<and> map_option res_dishNumbers (payload (fst r3)) = Some [2, 3]
          \<and> calculateDishNumbers 0 1705338420000 None (snd r3) (js ''bob@x.com'') = [1])
   \<and> map (\<lambda>p. (row_id p, nombre p, plato1 p, plato2 p, plato3 p, timestamp p))
        (ordersOf
           (snd (submit (ADMIN_EMAILS None) 0 1705338300000 noFaults emptyStore
                   (js ''ana@x.com'') (exBody ''Ana'' ''Tortilla de papa'' '''' ''Pastel de papa'')))
           (js ''ana@x.com'') (2024, 1, 16))
       = [(1, js ''Ana'', Some (js ''Tortilla de papa''), Some [], Some (js ''Pastel de papa''),
           getArgTime 0 1705338300000)]
   \<and> map (\<lambda>p. (row_id p, nombre p, plato1 p, plato2 p, plato3 p, timestamp p))
        (ordersOf
           (snd (submit (ADMIN_EMAILS None) 0 1705338420000 noFaults
              (snd (submit (ADMIN_EMAILS None) 0 1705338360000 noFaults
                 (snd (submit (ADMIN_EMAILS None) 0 1705338300000 noFaults emptyStore
                         (js ''ana@x.com'')
                         (exBody ''Ana'' ''Tortilla de papa'' '''' ''Pastel de papa'')))
                 (js ''bob@x.com'') (exBody ''Bob'' ''Tarta - pollo'' '''' '''')))
              (js ''ana@x.com'') (exBody ''Ana'' ''Ensalada Completa'' ''Tarta - pollo'' '''')))
           (js ''ana@x.com'') (2024, 1, 16))
       = [(1, js ''Ana'', Some (js ''Ensalada Completa''), Some (js ''Tarta - pollo''), Some [],
           getArgTime 0 1705338420000)]"
proof -
  let ?A = "js ''ana@x.com''" and ?B = "js ''bob@x.com''"
  let ?bA = "exBody ''Ana'' ''Tortilla de papa'' '''' ''Pastel de papa''"
  let ?bB = "exBody ''Bob'' ''Tarta - pollo'' '''' ''''"
  let ?bA2 = "exBody ''Ana'' ''Ensalada Completa'' ''Tarta - pollo'' ''''"
  let ?st1 = "snd (submit (ADMIN_EMAILS None) 0 1705338300000 noFaults emptyStore ?A ?bA)"
  let ?st2 = "snd (submit (ADMIN_EMAILS None) 0 1705338360000 noFaults ?st1 ?B ?bB)"
  let ?st3 = "snd (submit (ADMIN_EMAILS None) 0 1705338420000 noFaults ?st2 ?A ?bA2)"
  let ?cols = "\<lambda>p. (row_id p, nombre p, plato1 p, plato2 p, plato3 p, timestamp p)"
  have ab: "?A \<noteq> ?B" by code_simp
  have al1: "allowed (checkTimeRestriction (ADMIN_EMAILS None) 0 1705338300000 ?A)"
    by code_simp
  have al2: "allowed (checkTimeRestriction (ADMIN_EMAILS None) 0 1705338360000 ?B)"
    by code_simp
  have al3: "allowed (checkTimeRestriction (ADMIN_EMAILS None) 0 1705338420000 ?A)"
    by code_simp
  have c1: "getCycleDate 0 (getArgTime 0 1705338300000) = (2024, 1, 16)" by code_simp
  have c2: "getCycleDate 0 (getArgTime 0 1705338360000) = (2024, 1, 16)" by code_simp
  have c3: "getCycleDate 0 (getArgTime 0 1705338420000) = (2024, 1, 16)" by code_simp
  have t12: "getArgTime 0 1705338300000 \<le> getArgTime 0 1705338360000" by code_simp
  have t23: "getArgTime 0 1705338360000 < getArgTime 0 1705338420000" by code_simp
  have vA: "truthy (body_nombre ?bA) \<and> trim (the (body_nombre ?bA)) \<noteq> []
            \<and> truthy (body_plato1 ?bA)" by code_simp
  have vB: "truthy (body_nombre ?bB) \<and> trim (the (body_nombre ?bB)) \<noteq> []
            \<and> truthy (body_plato1 ?bB)" by code_simp
  have vA2: "truthy (body_nombre ?bA2) \<and> trim (the (body_nombre ?bA2)) \<noteq> []
             \<and> truthy (body_plato1 ?bA2)" by code_simp
  have nA: "bodyDishCount ?bA = 2" by code_simp
  have nB: "bodyDishCount ?bB = 1" by code_simp
  have nA2: "bodyDishCount ?bA2 = 2" by code_simp
  have ok: "storeOk emptyStore" by code_simp
  have fresh: "filter (\<lambda>p. fecha p = (2024, 1, 16)) (rows emptyStore) = []" by code_simp
  note inst =
    resubmission_renumbers [OF ab al1 al2 al3 c1 c2 c3 t12 t23 vA vB vA2 nA nB nA2 ok fresh]
  from inst have nums:
    "(let r1 = submit (ADMIN_EMAILS None) 0 1705338300000 noFaults emptyStore ?A ?bA;
          r2 = submit (ADMIN_EMAILS None) 0 1705338360000 noFaults (snd r1) ?B ?bB;
          r3 = submit (ADMIN_EMAILS None) 0 1705338420000 noFaults (snd r2) ?A ?bA2
      in map_option res_dishNumbers (payload (fst r1)) = Some [1, 2]
         \<and> map_option res_dishNumbers (payload (fst r2)) = Some [3]
         \<and> map_option res_action (payload (fst r3)) = Some Updated
         \<and> map_option res_dishNumbers (payload (fst r3)) = Some [2, 3]
         \<and> calculateDishNumbers 0 1705338420000 None (snd r3) ?B = [1])"
    unfolding Let_def by blast
  from inst obtain p q where
    r1: "rows ?st1 = rows emptyStore @ [p]"
    and r3: "rows ?st3 =
               rows emptyStore @
                 [p\<lparr>nombre := trim (the (body_nombre ?bA2)),
                    plato1 := Some (orEmpty (body_plato1 ?bA2)),
                    plato2 := Some (orEmpty (body_plato2 ?bA2)),
                    plato3 := Some (orEmpty (body_plato3 ?bA2)),
                    timestamp := getArgTime 0 1705338420000\<rparr>, q]"
    and p: "email p = ?A \<and> fecha p = (2024, 1, 16)
            \<and> timestamp p = getArgTime 0 1705338300000
            \<and> nombre p = trim (the (body_nombre ?bA))
            \<and> plato1 p = Some (orEmpty (body_plato1 ?bA))
            \<and> plato2 p = Some (orEmpty (body_plato2 ?bA))
            \<and> plato3 p = Some (orEmpty (body_plato3 ?bA))"
    and q: "email q = ?B"
    unfolding Let_def by blast
  have id1: "map row_id (rows ?st1) = [1]" by code_simp
  have e: "rows emptyStore = []" by (simp add: emptyStore_def)
  have v: "trim (the (body_nombre ?bA)) = js ''Ana''
           \<and> orEmpty (body_plato1 ?bA) = js ''Tortilla de papa''
           \<and> orEmpty (body_plato2 ?bA) = []
           \<and> orEmpty (body_plato3 ?bA) = js ''Pastel de papa''
           \<and> trim (the (body_nombre ?bA2)) = js ''Ana''
           \<and> orEmpty (body_plato1 ?bA2) = js ''Ensalada Completa''
           \<and> orEmpty (body_plato2 ?bA2) = js ''Tarta - pollo''
           \<and> orEmpty (body_plato3 ?bA2) = []"
    by code_simp
  from id1 r1 e have idp: "row_id p = 1" by simp
  have o1: "map ?cols (ordersOf ?st1 ?A (2024, 1, 16))
            = [(1, js ''Ana'', Some (js ''Tortilla de papa''), Some [],
                Some (js ''Pastel de papa''), getArgTime 0 1705338300000)]"
    using p idp v by (simp add: ordersOf_def r1 e)
  have o3: "map ?cols (ordersOf ?st3 ?A (2024, 1, 16))
            = [(1, js ''Ana'', Some (js ''Ensalada Completa''), Some (js ''Tarta - pollo''),
                Some [], getArgTime 0 1705338420000)]"
    using p q ab idp v by (simp add: ordersOf_def r3 e)
  from ab t12 t23 nums o1 o3 show ?thesis
    by (intro conjI)
qed

end
